theory Spec2Isabelle
  imports Main "HOL-Library.AList"
begin

section \<open>Types of the sitemap library\<close>

text \<open>
  The type declarations of \<^verbatim>\<open>lib/types\<close> are imported by \<^verbatim>\<open>lib/sitemap.ts\<close>.
  The records below carry every field that \<^verbatim>\<open>sitemap.ts\<close> reads or writes; the
  fields it only copies (through an object spread) are kept together in a
  \<open>rest\<close> field of name/value pairs.  An optional field is an \<open>option\<close>, with
  \<open>None\<close> for \<^verbatim>\<open>undefined\<close>.  Field names carry a prefix because record fields
  are global constants.
\<close>

text \<open>A JavaScript number (a double): a finite one is \<open>m * 2 ^ e\<close> for integers
  \<open>m\<close> and \<open>e\<close>; the flag of an infinity is its sign.  The model never computes with
  a number.\<close>

datatype number = Finite int int | Infinity bool | NaN

text \<open>A JavaScript \<^verbatim>\<open>Date\<close>: its time value in milliseconds, \<open>None\<close> for an invalid date.\<close>

type_synonym Date = "int option"

datatype EnumYesNo = YES | NO

datatype ErrorLevel = SILENT | WARN | THROW

datatype violation = MissingField | OutOfRange | InvalidEnum

datatype error =
    TypeError_InvalidURL
  | TypeError_undefined
  | RangeError_InvalidTime
  | FsError string
  | ValidationError violation
  | XMLError
  | UndefinedTargetFolderError

record ISitemapImg =
  img_url :: string
  img_caption :: "string option"
  img_title :: "string option"
  img_geoLocation :: "string option"
  img_license :: "string option"

record ILinkItem =
  link_lang :: string
  link_url :: string

datatype boolOrYesNo = Bool bool | YesNo EnumYesNo

datatype stringOrList = OneString string | ManyStrings "string list"

datatype stringOrNumber = Str string | Num number

record IVideoItemLoose =
  vl_thumbnail_loc :: string
  vl_title :: string
  vl_description :: string
  vl_content_loc :: "string option"
  vl_player_loc :: "string option"
  vl_family_friendly :: "boolOrYesNo option"
  vl_live :: "boolOrYesNo option"
  vl_requires_subscription :: "boolOrYesNo option"
  vl_tag :: "stringOrList option"
  vl_rating :: "stringOrNumber option"
  vl_view_count :: "stringOrNumber option"
  vl_rest :: "(string \<times> string) list"

record IVideoItem =
  v_thumbnail_loc :: string
  v_title :: string
  v_description :: string
  v_content_loc :: "string option"
  v_player_loc :: "string option"
  v_family_friendly :: "EnumYesNo option"
  v_live :: "EnumYesNo option"
  v_requires_subscription :: "EnumYesNo option"
  v_tag :: "string list"
  v_rating :: "number option"
  v_view_count :: "string option"
  v_rest :: "(string \<times> string) list"

datatype imgLoose =
    ImgStr string
  | ImgObj ISitemapImg
  | ImgArr "(string + ISitemapImg) list"

datatype videoLoose =
    VideoObj IVideoItemLoose
  | VideoArr "IVideoItemLoose list"

record ISitemapItemOptionsLoose =
  l_url :: string
  l_img :: "imgLoose option"
  l_video :: "videoLoose option"
  l_links :: "ILinkItem list option"
  l_lastmod :: "string option"
  l_lastmodISO :: "string option"
  l_lastmodfile :: "string option"
  l_changefreq :: "string option"
  l_priority :: "number option"
  l_rest :: "(string \<times> string) list"

record SitemapItemOptions =
  url :: string
  img :: "ISitemapImg list"
  video :: "IVideoItem list"
  links :: "ILinkItem list"
  lastmod :: "string option"
  lastmodISO :: "string option"
  lastmodfile :: "string option"
  changefreq :: "string option"
  priority :: "number option"
  rest :: "(string \<times> string) list"

text \<open>The argument of \<^verbatim>\<open>add\<close>, \<^verbatim>\<open>contains\<close>, \<^verbatim>\<open>del\<close> and \<^verbatim>\<open>normalizeURL\<close>:
  \<^verbatim>\<open>string | ISitemapItemOptionsLoose\<close>.\<close>

datatype elem = ElemStr string | ElemObj ISitemapItemOptionsLoose

section \<open>The XML root element\<close>

text \<open>
  \<^verbatim>\<open>xmlbuilder\<close> is an external library.  Its root element is modelled by what the
  calls of \<^verbatim>\<open>sitemap.ts\<close> store in it: \<^verbatim>\<open>att\<close> and \<^verbatim>\<open>attribute\<close> set an attribute
  (a second call with the same name replaces the value), \<^verbatim>\<open>instructionBefore\<close>
  inserts one more processing instruction immediately before the element, and
  \<^verbatim>\<open>children\<close> is the array of child elements.  \<^verbatim>\<open>attribute\<close> throws on a name or
  a value that is not legal XML; which ones are legal is left to the
  collaborator \<open>attribute_ok\<close>, and how the document is written out to the
  collaborator \<open>xml_end\<close>.
\<close>

record XMLElement =
  x_instructions :: "(string \<times> string) list"
  x_attributes :: "(string \<times> string) list"
  x_children :: "string list"

definition create_urlset :: XMLElement where
  "create_urlset = \<lparr>x_instructions = [], x_attributes = [], x_children = []\<rparr>"

definition att :: "string \<Rightarrow> string \<Rightarrow> XMLElement \<Rightarrow> XMLElement" where
  "att k v r = r\<lparr>x_attributes := AList.update k v (x_attributes r)\<rparr>"

definition instructionBefore :: "string \<Rightarrow> string \<Rightarrow> XMLElement \<Rightarrow> XMLElement" where
  "instructionBefore target v r = r\<lparr>x_instructions := x_instructions r @ [(target, v)]\<rparr>"

section \<open>Collaborators\<close>

text \<open>
  \<^verbatim>\<open>sitemap.ts\<close> calls into Node (\<^verbatim>\<open>URL\<close>, \<^verbatim>\<open>Date\<close>, \<^verbatim>\<open>fs.statSync\<close>, \<^verbatim>\<open>parseFloat\<close>,
  \<^verbatim>\<open>zlib\<close>), into \<^verbatim>\<open>xmlbuilder\<close> and into the modules \<^verbatim>\<open>lib/utils\<close> and
  \<^verbatim>\<open>lib/sitemap-item\<close>.  Each of these calls is a field of the record \<open>env\<close>, so
  every definition below is the code of \<^verbatim>\<open>sitemap.ts\<close> over arbitrary collaborators.
  A collaborator that can throw returns an \<open>option\<close> or a sum.
\<close>

record env =
  new_URL :: "string \<Rightarrow> string option \<Rightarrow> string option"
    \<comment> \<open>\<^verbatim>\<open>(new URL(url, base)).toString()\<close>; \<open>None\<close> when the constructor throws\<close>
  statSync_mtime :: "string \<Rightarrow> Date option"
    \<comment> \<open>\<^verbatim>\<open>statSync(path).mtime\<close>; \<open>None\<close> when \<^verbatim>\<open>statSync\<close> throws\<close>
  Date_parse :: "string \<Rightarrow> Date"
    \<comment> \<open>\<^verbatim>\<open>new Date(string)\<close>\<close>
  format_ISO :: "int \<Rightarrow> string"
    \<comment> \<open>\<^verbatim>\<open>toISOString\<close> of a valid time value\<close>
  parseFloat :: "string \<Rightarrow> number"
  number_toString :: "number \<Rightarrow> string"
    \<comment> \<open>\<^verbatim>\<open>'' + n\<close> for a number \<open>n\<close>\<close>
  validateSMIOptions :: "SitemapItemOptions \<Rightarrow> ErrorLevel option \<Rightarrow> violation option"
    \<comment> \<open>\<^verbatim>\<open>lib/utils\<close>; \<open>Some v\<close> when it throws\<close>
  justItem :: "SitemapItemOptions \<Rightarrow> ErrorLevel \<Rightarrow> violation + string"
    \<comment> \<open>\<^verbatim>\<open>SitemapItem.justItem\<close>: the markup of one entry\<close>
  buildXML :: "SitemapItemOptions \<Rightarrow> violation + string"
    \<comment> \<open>\<^verbatim>\<open>new SitemapItem(smi, root).buildXML()\<close>: the child element appended to the root\<close>
  attribute_ok :: "string \<Rightarrow> string \<Rightarrow> bool"
    \<comment> \<open>whether \<^verbatim>\<open>root.attribute(name, value)\<close> of xmlbuilder accepts the name and the
        value; it throws when not\<close>
  xml_end :: "XMLElement \<Rightarrow> bool \<Rightarrow> string"
    \<comment> \<open>\<^verbatim>\<open>root.end(opts)\<close>: the writer of xmlbuilder; the flag is the \<^verbatim>\<open>pretty\<close> option\<close>
  gzipSync :: "string \<Rightarrow> string"
  buildSitemapIndex :: "string list \<Rightarrow> string option \<Rightarrow> string"
    \<comment> \<open>\<^verbatim>\<open>buildSitemapIndex\<close>: the index document for a list of locations and a stylesheet\<close>

section \<open>Normalisation of one entry\<close>

definition preamble :: string where
  \<open>preamble = ''<?xml version="1.0" encoding="UTF-8"?><urlset xmlns="http://www.sitemaps.org/schemas/sitemap/0.9" xmlns:news="http://www.google.com/schemas/sitemap-news/0.9" xmlns:xhtml="http://www.w3.org/1999/xhtml" xmlns:mobile="http://www.google.com/schemas/sitemap-mobile/1.0" xmlns:image="http://www.google.com/schemas/sitemap-image/1.1" xmlns:video="http://www.google.com/schemas/sitemap-video/1.1">''\<close>

definition closetag :: string where
  "closetag = ''</urlset>''"

fun boolToYESNO :: "boolOrYesNo option \<Rightarrow> EnumYesNo option" where
  "boolToYESNO None = None"
| "boolToYESNO (Some (Bool b)) = Some (if b then YES else NO)"
| "boolToYESNO (Some (YesNo e)) = Some e"

text \<open>JavaScript truthiness of an optional string: defined and not empty.\<close>

fun truthy :: "string option \<Rightarrow> bool" where
  "truthy None = False"
| "truthy (Some s) = (s \<noteq> [])"

text \<open>Truthiness of \<^verbatim>\<open>smiLoose.img\<close>: an object or an array always is, a string when not empty.\<close>

fun img_truthy :: "imgLoose option \<Rightarrow> bool" where
  "img_truthy None = False"
| "img_truthy (Some (ImgStr s)) = (s \<noteq> [])"
| "img_truthy (Some (ImgObj _)) = True"
| "img_truthy (Some (ImgArr _)) = True"

text \<open>The object literal \<^verbatim>\<open>{url: s}\<close> as an image.\<close>

definition img_of_url :: "string \<Rightarrow> ISitemapImg" where
  "img_of_url s = \<lparr>img_url = s, img_caption = None, img_title = None,
     img_geoLocation = None, img_license = None\<rparr>"

text \<open>Lines 237 to 243: the array that \<^verbatim>\<open>smiLoose.img\<close> holds after the two assignments.\<close>

fun img_array :: "imgLoose \<Rightarrow> (string + ISitemapImg) list" where
  "img_array (ImgStr s) = [Inr (img_of_url s)]"
| "img_array (ImgObj el) = [Inr el]"
| "img_array (ImgArr els) = els"

text \<open>Line 245: a string element becomes \<^verbatim>\<open>{url: el}\<close>.\<close>

fun img_of_el :: "string + ISitemapImg \<Rightarrow> ISitemapImg" where
  "img_of_el (Inl s) = img_of_url s"
| "img_of_el (Inr el) = el"

text \<open>A \<^verbatim>\<open>map\<close> whose callback can throw: the first exception ends it.\<close>

fun mapE :: "('a \<Rightarrow> 'e + 'b) \<Rightarrow> 'a list \<Rightarrow> 'e + 'b list" where
  "mapE f [] = Inr []"
| "mapE f (x # xs) =
     (case f x of
        Inl e \<Rightarrow> Inl e
      | Inr y \<Rightarrow> (case mapE f xs of Inl e \<Rightarrow> Inl e | Inr ys \<Rightarrow> Inr (y # ys)))"

definition resolve :: "env \<Rightarrow> string \<Rightarrow> string option \<Rightarrow> error + string" where
  "resolve env u hostname =
     (case new_URL env u hostname of None \<Rightarrow> Inl TypeError_InvalidURL | Some r \<Rightarrow> Inr r)"

definition resolve_img :: "env \<Rightarrow> string option \<Rightarrow> ISitemapImg \<Rightarrow> error + ISitemapImg" where
  "resolve_img env hostname el =
     (case resolve env (img_url el) hostname of
        Inl e \<Rightarrow> Inl e
      | Inr r \<Rightarrow> Inr (el\<lparr>img_url := r\<rparr>))"

definition resolve_link :: "env \<Rightarrow> string option \<Rightarrow> ILinkItem \<Rightarrow> error + ILinkItem" where
  "resolve_link env hostname link =
     (case resolve env (link_url link) hostname of
        Inl e \<Rightarrow> Inl e
      | Inr r \<Rightarrow> Inr (link\<lparr>link_url := r\<rparr>))"

text \<open>Lines 261 to 264: the array that \<^verbatim>\<open>smiLoose.video\<close> holds after the assignment.\<close>

fun video_array :: "videoLoose \<Rightarrow> IVideoItemLoose list" where
  "video_array (VideoObj v) = [v]"
| "video_array (VideoArr vs) = vs"

text \<open>Lines 265 to 294: the callback of \<^verbatim>\<open>smiLoose.video.map\<close>.\<close>

definition normalizeVideo :: "env \<Rightarrow> IVideoItemLoose \<Rightarrow> IVideoItem" where
  "normalizeVideo env vid =
     \<lparr>v_thumbnail_loc = vl_thumbnail_loc vid,
      v_title = vl_title vid,
      v_description = vl_description vid,
      v_content_loc = vl_content_loc vid,
      v_player_loc = vl_player_loc vid,
      v_family_friendly = boolToYESNO (vl_family_friendly vid),
      v_live = boolToYESNO (vl_live vid),
      v_requires_subscription = boolToYESNO (vl_requires_subscription vid),
      v_tag = (case vl_tag vid of
                 None \<Rightarrow> []
               | Some (OneString t) \<Rightarrow> [t]
               | Some (ManyStrings ts) \<Rightarrow> ts),
      v_rating = (case vl_rating vid of
                    None \<Rightarrow> None
                  | Some (Str s) \<Rightarrow> Some (parseFloat env s)
                  | Some (Num n) \<Rightarrow> Some n),
      v_view_count = (case vl_view_count vid of
                        None \<Rightarrow> None
                      | Some (Str s) \<Rightarrow> Some s
                      | Some (Num n) \<Rightarrow> Some (number_toString env n)),
      v_rest = vl_rest vid\<rparr>"

text \<open>\<^verbatim>\<open>(new Date(d)).toISOString()\<close>: a \<^verbatim>\<open>RangeError\<close> on an invalid date.\<close>

definition toISOString :: "env \<Rightarrow> Date \<Rightarrow> error + string" where
  "toISOString env d =
     (case d of None \<Rightarrow> Inl RangeError_InvalidTime | Some t \<Rightarrow> Inr (format_ISO env t))"

text \<open>Lines 297 to 308: the value assigned to \<^verbatim>\<open>smi.lastmod\<close>, \<open>None\<close> when no
  branch is taken.\<close>

definition resolveLastmod :: "env \<Rightarrow> ISitemapItemOptionsLoose \<Rightarrow> error + string option" where
  "resolveLastmod env smiLoose =
     (if truthy (l_lastmodfile smiLoose) then
        (case statSync_mtime env (the (l_lastmodfile smiLoose)) of
           None \<Rightarrow> Inl (FsError (the (l_lastmodfile smiLoose)))
         | Some mtime \<Rightarrow> map_sum id Some (toISOString env mtime))
      else if truthy (l_lastmodISO smiLoose) then
        map_sum id Some (toISOString env (Date_parse env (the (l_lastmodISO smiLoose))))
      else if truthy (l_lastmod smiLoose) then
        map_sum id Some (toISOString env (Date_parse env (the (l_lastmod smiLoose))))
      else Inr None)"

text \<open>Line 310, \<^verbatim>\<open>{...smiLoose, ...smi}\<close>: the fields of \<open>smi\<close> (\<open>url\<close>, \<open>img\<close>,
  \<open>video\<close>, \<open>links\<close>, and \<open>lastmod\<close> when it was assigned) win over those of
  \<open>smiLoose\<close>; every other field is the one of \<open>smiLoose\<close>.\<close>

definition spread ::
  "ISitemapItemOptionsLoose \<Rightarrow> string \<Rightarrow> ISitemapImg list \<Rightarrow> IVideoItem list \<Rightarrow>
   ILinkItem list \<Rightarrow> string option \<Rightarrow> SitemapItemOptions" where
  "spread smiLoose u imgs videos lnks lm =
     \<lparr>url = u, img = imgs, video = videos, links = lnks,
      lastmod = (case lm of None \<Rightarrow> l_lastmod smiLoose | Some x \<Rightarrow> Some x),
      lastmodISO = l_lastmodISO smiLoose,
      lastmodfile = l_lastmodfile smiLoose,
      changefreq = l_changefreq smiLoose,
      priority = l_priority smiLoose,
      rest = l_rest smiLoose\<rparr>"

text \<open>
  \<^verbatim>\<open>Sitemap.normalizeURL\<close>.  For an object argument \<open>smiLoose\<close> is the caller's
  object, and the assignments to \<^verbatim>\<open>smiLoose.img\<close> (lines 239 and 242) and to
  \<^verbatim>\<open>smiLoose.video\<close> (line 263) write into it; \<open>normalizeLoose\<close> therefore returns
  the object as the call leaves it together with the result, also when the
  call throws after an assignment.  The \<^verbatim>\<open>root\<close> parameter is not used by the
  source.
\<close>

text \<open>Lines 235 to 246: the local array \<open>img\<close>, and \<^verbatim>\<open>smiLoose.img\<close> after the block.\<close>

definition loose_imgs :: "ISitemapItemOptionsLoose \<Rightarrow> ISitemapImg list" where
  "loose_imgs smiLoose =
     (if img_truthy (l_img smiLoose)
      then map img_of_el (img_array (the (l_img smiLoose))) else [])"

definition img_after :: "imgLoose option \<Rightarrow> imgLoose option" where
  "img_after i = (if img_truthy i then Some (ImgArr (img_array (the i))) else i)"

text \<open>Lines 252 to 255: the local array \<open>links\<close>.\<close>

definition loose_links :: "ISitemapItemOptionsLoose \<Rightarrow> ILinkItem list" where
  "loose_links smiLoose = (case l_links smiLoose of None \<Rightarrow> [] | Some ls \<Rightarrow> ls)"

text \<open>Lines 260 to 264: the array that is mapped, and \<^verbatim>\<open>smiLoose.video\<close> after the block.\<close>

definition loose_videos :: "ISitemapItemOptionsLoose \<Rightarrow> IVideoItemLoose list" where
  "loose_videos smiLoose = (case l_video smiLoose of None \<Rightarrow> [] | Some vs \<Rightarrow> video_array vs)"

definition video_after :: "videoLoose option \<Rightarrow> videoLoose option" where
  "video_after v = (case v of None \<Rightarrow> None | Some vs \<Rightarrow> Some (VideoArr (video_array vs)))"

definition normalizeLoose ::
  "env \<Rightarrow> ISitemapItemOptionsLoose \<Rightarrow> string option \<Rightarrow>
   ISitemapItemOptionsLoose \<times> (error + SitemapItemOptions)" where
  "normalizeLoose env smiLoose hostname =
     (case resolve env (l_url smiLoose) hostname of
        Inl e \<Rightarrow> (smiLoose, Inl e)
      | Inr u \<Rightarrow>
          let smiLoose1 = smiLoose\<lparr>l_img := img_after (l_img smiLoose)\<rparr>
          in (case mapE (resolve_img env hostname) (loose_imgs smiLoose) of
                Inl e \<Rightarrow> (smiLoose1, Inl e)
              | Inr imgs \<Rightarrow>
                  (case mapE (resolve_link env hostname) (loose_links smiLoose1) of
                     Inl e \<Rightarrow> (smiLoose1, Inl e)
                   | Inr lnks \<Rightarrow>
                       let smiLoose2 = smiLoose1\<lparr>l_video := video_after (l_video smiLoose1)\<rparr>;
                           videos = map (normalizeVideo env) (loose_videos smiLoose1)
                       in (case resolveLastmod env smiLoose2 of
                             Inl e \<Rightarrow> (smiLoose2, Inl e)
                           | Inr lm \<Rightarrow> (smiLoose2, Inr (spread smiLoose2 u imgs videos lnks lm))))))"

text \<open>Lines 225 to 231: \<open>smiLoose\<close> is a new object \<^verbatim>\<open>{url: elem}\<close> for a string and
  the argument itself otherwise.\<close>

fun smiLoose_of :: "elem \<Rightarrow> ISitemapItemOptionsLoose" where
  "smiLoose_of (ElemStr s) =
     \<lparr>l_url = s, l_img = None, l_video = None, l_links = None, l_lastmod = None,
      l_lastmodISO = None, l_lastmodfile = None, l_changefreq = None,
      l_priority = None, l_rest = []\<rparr>"
| "smiLoose_of (ElemObj smiLoose) = smiLoose"

definition normalizeURL ::
  "env \<Rightarrow> elem \<Rightarrow> string option \<Rightarrow> elem \<times> (error + SitemapItemOptions)" where
  "normalizeURL env el hostname =
     (case normalizeLoose env (smiLoose_of el) hostname of
        (smiLoose', r) \<Rightarrow>
          ((case el of ElemStr s \<Rightarrow> ElemStr s | ElemObj _ \<Rightarrow> ElemObj smiLoose'), r))"

section \<open>The class Sitemap\<close>

text \<open>
  \<^verbatim>\<open>urls\<close> is a JavaScript \<^verbatim>\<open>Map\<close>: an association list in insertion order.
  \<^verbatim>\<open>Map.set\<close> replaces the value of a key in place or appends a new pair
  (\<open>AList.update\<close>), \<^verbatim>\<open>Map.has\<close> looks a key up, \<^verbatim>\<open>Map.delete\<close> removes the
  pair of a key (\<open>AList.delete\<close>) and \<^verbatim>\<open>size\<close> is the length.  Time stamps
  and \<^verbatim>\<open>cacheTime\<close> are milliseconds, as integers.
\<close>

record Sitemap =
  limit :: nat
  xmlNs :: string
  cacheSetTimestamp :: int
  urls :: "(string \<times> SitemapItemOptions) list"
  cacheTime :: int
  cache :: string
  root :: XMLElement
  hostname :: "string option"
  xslUrl :: "string option"

record ISitemapOptions =
  o_urls :: "elem list option"
  o_hostname :: "string option"
  o_cacheTime :: "int option"
  o_xslUrl :: "string option"
  o_xmlNs :: "string option"
  o_level :: "ErrorLevel option"

text \<open>\<^verbatim>\<open>Sitemap.normalizeURLs\<close>: the \<^verbatim>\<open>forEach\<close> over the array, with the map built so far.
  The first exception ends the loop.  The entries are returned as the call
  leaves them.\<close>

fun normalizeURLs_from ::
  "env \<Rightarrow> string option \<Rightarrow> elem list \<Rightarrow> (string \<times> SitemapItemOptions) list \<Rightarrow>
   elem list \<times> (error + (string \<times> SitemapItemOptions) list)" where
  "normalizeURLs_from env h [] urlMap = ([], Inr urlMap)"
| "normalizeURLs_from env h (el # els) urlMap =
     (case normalizeURL env el h of
        (el', Inl e) \<Rightarrow> (el' # els, Inl e)
      | (el', Inr smio) \<Rightarrow>
          (case normalizeURLs_from env h els (AList.update (url smio) smio urlMap) of
             (els', r) \<Rightarrow> (el' # els', r)))"

definition normalizeURLs ::
  "env \<Rightarrow> elem list \<Rightarrow> string option \<Rightarrow>
   elem list \<times> (error + (string \<times> SitemapItemOptions) list)" where
  "normalizeURLs env els h = normalizeURLs_from env h els []"

text \<open>\<^verbatim>\<open>String.prototype.split\<close> with a separator of one character.\<close>

fun split :: "char \<Rightarrow> string \<Rightarrow> string list" where
  "split c [] = [[]]"
| "split c (x # xs) =
     (if x = c then [] # split c xs
      else (case split c xs of [] \<Rightarrow> [[x]] | w # ws \<Rightarrow> (x # w) # ws))"

definition is_quote :: "char \<Rightarrow> bool" where
  "is_quote c = (c = CHR 0x27 \<or> c = CHR 0x22)"

text \<open>\<^verbatim>\<open>v.replace(/^['"]|['"]$/g, '')\<close>: one leading quote is dropped, then one trailing quote.\<close>

definition strip_quotes :: "string \<Rightarrow> string" where
  "strip_quotes v =
     (let v1 = (case v of [] \<Rightarrow> [] | c # cs \<Rightarrow> if is_quote c then cs else v)
      in if v1 \<noteq> [] \<and> is_quote (last v1) then butlast v1 else v1)"

text \<open>Lines 125 to 128: the loop over the namespace attributes.  \<^verbatim>\<open>v\<close> is
  \<^verbatim>\<open>undefined\<close> when the attribute has no \<^verbatim>\<open>=\<close>, and \<^verbatim>\<open>v.replace\<close> then throws;
  after that \<^verbatim>\<open>root.attribute\<close> throws when the name or the value is not legal.\<close>

fun xmlNs_attributes :: "env \<Rightarrow> string list \<Rightarrow> XMLElement \<Rightarrow> error + XMLElement" where
  "xmlNs_attributes env [] r = Inr r"
| "xmlNs_attributes env (a # as) r =
     (case split CHR ''='' a of
        k # v # _ \<Rightarrow>
          if attribute_ok env k (strip_quotes v)
          then xmlNs_attributes env as (att k (strip_quotes v) r)
          else Inl XMLError
      | _ \<Rightarrow> Inl TypeError_undefined)"

text \<open>Lines 133 to 135: the first entry that fails validation throws.\<close>

fun validateAll :: "env \<Rightarrow> SitemapItemOptions list \<Rightarrow> ErrorLevel option \<Rightarrow> error + unit" where
  "validateAll env [] level = Inr ()"
| "validateAll env (smi # smis) level =
     (case validateSMIOptions env smi level of
        Some v \<Rightarrow> Inl (ValidationError v)
      | None \<Rightarrow> validateAll env smis level)"

text \<open>The constructor.  The defaults of the destructuring pattern are \<open>[]\<close> for
  \<^verbatim>\<open>urls\<close>, \<open>0\<close> for \<^verbatim>\<open>cacheTime\<close> and \<^verbatim>\<open>ErrorLevel.WARN\<close> for \<^verbatim>\<open>level\<close>.\<close>

definition new_Sitemap :: "env \<Rightarrow> ISitemapOptions \<Rightarrow> error + Sitemap" where
  "new_Sitemap env opts =
     (case (if truthy (o_xmlNs opts)
            then xmlNs_attributes env (split CHR '' '' (the (o_xmlNs opts))) create_urlset
            else Inr create_urlset) of
        Inl e \<Rightarrow> Inl e
      | Inr r \<Rightarrow>
          (case snd (normalizeURLs env (case o_urls opts of None \<Rightarrow> [] | Some us \<Rightarrow> us)
                       (o_hostname opts)) of
             Inl e \<Rightarrow> Inl e
           | Inr urlMap \<Rightarrow>
               (case validateAll env (map snd urlMap)
                       (Some (case o_level opts of None \<Rightarrow> WARN | Some l \<Rightarrow> l)) of
                  Inl e \<Rightarrow> Inl e
                | Inr _ \<Rightarrow>
                    Inr \<lparr>limit = 5000,
                         xmlNs = (if truthy (o_xmlNs opts) then the (o_xmlNs opts) else []),
                         cacheSetTimestamp = 0,
                         urls = urlMap,
                         cacheTime = (case o_cacheTime opts of None \<Rightarrow> 0 | Some t \<Rightarrow> t),
                         cache = [],
                         root = r,
                         hostname = o_hostname opts,
                         xslUrl = o_xslUrl opts\<rparr>)))"

definition clearCache :: "Sitemap \<Rightarrow> Sitemap" where
  "clearCache s = s\<lparr>cache := []\<rparr>"

text \<open>\<^verbatim>\<open>isCacheValid\<close>; \<open>now\<close> is the value of \<^verbatim>\<open>Date.now()\<close>.\<close>

definition isCacheValid :: "int \<Rightarrow> Sitemap \<Rightarrow> bool" where
  "isCacheValid now s =
     (cacheTime s \<noteq> 0 \<and> cache s \<noteq> [] \<and> cacheSetTimestamp s + cacheTime s \<ge> now)"

definition setCache :: "int \<Rightarrow> string \<Rightarrow> Sitemap \<Rightarrow> string \<times> Sitemap" where
  "setCache now newCache s = (newCache, s\<lparr>cache := newCache, cacheSetTimestamp := now\<rparr>)"

text \<open>\<^verbatim>\<open>add\<close>: the argument as the call leaves it, the new size or the exception, and
  the document.\<close>

definition add ::
  "env \<Rightarrow> elem \<Rightarrow> ErrorLevel option \<Rightarrow> Sitemap \<Rightarrow> elem \<times> (error + nat) \<times> Sitemap" where
  "add env el level s =
     (case normalizeURL env el (hostname s) of
        (el', Inl e) \<Rightarrow> (el', Inl e, s)
      | (el', Inr smi) \<Rightarrow>
          (case validateSMIOptions env smi level of
             Some v \<Rightarrow> (el', Inl (ValidationError v), s)
           | None \<Rightarrow>
               let urls' = AList.update (url smi) smi (urls s)
               in (el', Inr (length urls'), s\<lparr>urls := urls'\<rparr>)))"

definition contains :: "env \<Rightarrow> elem \<Rightarrow> Sitemap \<Rightarrow> elem \<times> (error + bool)" where
  "contains env el s =
     (case normalizeURL env el (hostname s) of
        (el', Inl e) \<Rightarrow> (el', Inl e)
      | (el', Inr smi) \<Rightarrow> (el', Inr (url smi \<in> fst ` set (urls s))))"

definition del :: "env \<Rightarrow> elem \<Rightarrow> Sitemap \<Rightarrow> elem \<times> (error + bool) \<times> Sitemap" where
  "del env el s =
     (case normalizeURL env el (hostname s) of
        (el', Inl e) \<Rightarrow> (el', Inl e, s)
      | (el', Inr smi) \<Rightarrow>
          (el', Inr (url smi \<in> fst ` set (urls s)),
           s\<lparr>urls := AList.delete (url smi) (urls s)\<rparr>))"

text \<open>Lines 359 to 361: one child per entry, in the order of the map.\<close>

fun buildAll :: "env \<Rightarrow> SitemapItemOptions list \<Rightarrow> XMLElement \<Rightarrow> XMLElement \<times> error option" where
  "buildAll env [] r = (r, None)"
| "buildAll env (smi # smis) r =
     (case buildXML env smi of
        Inl v \<Rightarrow> (r, Some (ValidationError v))
      | Inr child \<Rightarrow> buildAll env smis (r\<lparr>x_children := x_children r @ [child]\<rparr>))"

text \<open>Lines 337 to 339 of \<^verbatim>\<open>toString\<close>: the children of the root are dropped.\<close>

definition resetChildren :: "XMLElement \<Rightarrow> XMLElement" where
  "resetChildren r = (if x_children r \<noteq> [] then r\<lparr>x_children := []\<rparr> else r)"

text \<open>Lines 340 to 347: the default namespaces, when no \<^verbatim>\<open>xmlNs\<close> was given.  The
  six names and values are constants of the source and legal XML.\<close>

definition defaultNamespaces :: "string \<Rightarrow> XMLElement \<Rightarrow> XMLElement" where
  \<open>defaultNamespaces ns r =
     (if ns = [] then
        att ''xmlns:video'' ''http://www.google.com/schemas/sitemap-video/1.1''
        (att ''xmlns:image'' ''http://www.google.com/schemas/sitemap-image/1.1''
        (att ''xmlns:mobile'' ''http://www.google.com/schemas/sitemap-mobile/1.0''
        (att ''xmlns:xhtml'' ''http://www.w3.org/1999/xhtml''
        (att ''xmlns:news'' ''http://www.google.com/schemas/sitemap-news/0.9''
        (att ''xmlns'' ''http://www.sitemaps.org/schemas/sitemap/0.9'' r)))))
      else r)\<close>

text \<open>Lines 349 to 351: the stylesheet instruction, when \<^verbatim>\<open>xslUrl\<close> is set.\<close>

definition stylesheetInstruction :: "string \<Rightarrow> string \<times> string" where
  \<open>stylesheetInstruction u = (''xml-stylesheet'', ''type="text/xsl" href="'' @ u @ ''"'')\<close>

definition addStylesheet :: "string option \<Rightarrow> XMLElement \<Rightarrow> XMLElement" where
  "addStylesheet xsl r =
     (if truthy xsl
      then instructionBefore (fst (stylesheetInstruction (the xsl)))
             (snd (stylesheetInstruction (the xsl))) r
      else r)"

text \<open>Lines 337 to 351: what every call of \<^verbatim>\<open>toString\<close> does to the root, before the
  cache is looked at.\<close>

definition prepareRoot :: "Sitemap \<Rightarrow> XMLElement" where
  "prepareRoot s =
     addStylesheet (xslUrl s) (defaultNamespaces (xmlNs s) (resetChildren (root s)))"

text \<open>\<^verbatim>\<open>toString\<close>.  \<open>now\<close> is the value of \<^verbatim>\<open>Date.now()\<close> read by \<^verbatim>\<open>isCacheValid\<close>
  and \<open>now'\<close> the one read by \<^verbatim>\<open>setCache\<close>.\<close>

definition toString :: "env \<Rightarrow> bool \<Rightarrow> int \<Rightarrow> int \<Rightarrow> Sitemap \<Rightarrow> (error + string) \<times> Sitemap" where
  "toString env pretty now now' s =
     (let s1 = s\<lparr>root := prepareRoot s\<rparr>
      in if isCacheValid now s1 then (Inr (cache s1), s1)
         else (case buildAll env (map snd (urls s1)) (root s1) of
                 (r, Some e) \<Rightarrow> (Inl e, s1\<lparr>root := r\<rparr>)
               | (r, None) \<Rightarrow>
                   (case setCache now' (xml_end env r pretty) (s1\<lparr>root := r\<rparr>) of
                      (str, s2) \<Rightarrow> (Inr str, s2))))"

text \<open>The result of \<^verbatim>\<open>toString\<close> on the path that does not return the cache.\<close>

definition regenerated :: "env \<Rightarrow> bool \<Rightarrow> Sitemap \<Rightarrow> error + string" where
  "regenerated env pretty s =
     (case buildAll env (map snd (urls s)) (prepareRoot s) of
        (r, Some e) \<Rightarrow> Inl e
      | (r, None) \<Rightarrow> Inr (xml_end env r pretty))"

definition toXML :: "env \<Rightarrow> bool \<Rightarrow> int \<Rightarrow> int \<Rightarrow> Sitemap \<Rightarrow> (error + string) \<times> Sitemap" where
  "toXML env pretty now now' s = toString env pretty now now' s"

text \<open>\<^verbatim>\<open>toGzip\<close> without a callback.\<close>

definition toGzip :: "env \<Rightarrow> int \<Rightarrow> int \<Rightarrow> Sitemap \<Rightarrow> (error + string) \<times> Sitemap" where
  "toGzip env now now' s =
     (case toString env False now now' s of
        (Inl e, s') \<Rightarrow> (Inl e, s')
      | (Inr str, s') \<Rightarrow> (Inr (gzipSync env str), s'))"

section \<open>The class SitemapStream\<close>

text \<open>
  The chunks handed to \<^verbatim>\<open>this.push\<close> are collected, in order, in \<open>st_pushed\<close>.
  An exception in \<^verbatim>\<open>_transform\<close> leaves the stream as it was when thrown.
\<close>

record SitemapStream =
  st_hostname :: "string option"
  st_level :: ErrorLevel
  st_hasHeadOutput :: bool
  st_pushed :: "string list"

definition new_SitemapStream :: "string option \<Rightarrow> ErrorLevel option \<Rightarrow> SitemapStream" where
  "new_SitemapStream h level =
     \<lparr>st_hostname = h,
      st_level = (case level of None \<Rightarrow> WARN | Some l \<Rightarrow> l),
      st_hasHeadOutput = False,
      st_pushed = []\<rparr>"

definition push :: "string \<Rightarrow> SitemapStream \<Rightarrow> SitemapStream" where
  "push chunk st = st\<lparr>st_pushed := st_pushed st @ [chunk]\<rparr>"

text \<open>The argument of the second \<^verbatim>\<open>this.push\<close> of \<^verbatim>\<open>_transform\<close>:
  \<^verbatim>\<open>SitemapItem.justItem(Sitemap.normalizeURL(item, undefined, hostname), level)\<close>.\<close>

definition itemFragment :: "env \<Rightarrow> string option \<Rightarrow> ErrorLevel \<Rightarrow> elem \<Rightarrow> error + string" where
  "itemFragment env h level item =
     (case snd (normalizeURL env item h) of
        Inl e \<Rightarrow> Inl e
      | Inr smi \<Rightarrow>
          (case justItem env smi level of
             Inl v \<Rightarrow> Inl (ValidationError v)
           | Inr fragment \<Rightarrow> Inr fragment))"

definition transform :: "env \<Rightarrow> elem \<Rightarrow> SitemapStream \<Rightarrow> error option \<times> SitemapStream" where
  "transform env item st =
     (let st1 = (if \<not> st_hasHeadOutput st
                 then push preamble (st\<lparr>st_hasHeadOutput := True\<rparr>) else st)
      in case itemFragment env (st_hostname st1) (st_level st1) item of
           Inl e \<Rightarrow> (Some e, st1)
         | Inr fragment \<Rightarrow> (None, push fragment st1))"

definition flush :: "SitemapStream \<Rightarrow> SitemapStream" where
  "flush st = push closetag st"

text \<open>The stream machinery of Node calls \<^verbatim>\<open>_transform\<close> once for every entry
  written, in the order written, and \<^verbatim>\<open>_flush\<close> once when the input has ended.\<close>

fun writeAll :: "env \<Rightarrow> elem list \<Rightarrow> SitemapStream \<Rightarrow> error option \<times> SitemapStream" where
  "writeAll env [] st = (None, st)"
| "writeAll env (item # items) st =
     (case transform env item st of
        (Some e, st') \<Rightarrow> (Some e, st')
      | (None, st') \<Rightarrow> writeAll env items st')"

definition runStream :: "env \<Rightarrow> elem list \<Rightarrow> SitemapStream \<Rightarrow> error + string list" where
  "runStream env items st =
     (case writeAll env items st of
        (Some e, _) \<Rightarrow> Inl e
      | (None, st') \<Rightarrow> Inr (st_pushed (flush st')))"

section \<open>The index orchestrator\<close>

text \<open>
  Modelled from the spec: the module \<^verbatim>\<open>lib/sitemap-index\<close> with \<^verbatim>\<open>createSitemapIndex\<close>
  is not among the sources (its test is), so every definition of this section
  follows section 4.5 of the spec and that test.
\<close>

text \<open>Modelled from the spec: the file-system collaborator, as the directories
  that exist and the files written, with their contents.\<close>

record FileSystem =
  fs_dirs :: "string list"
  fs_files :: "(string \<times> string) list"

text \<open>Modelled from the spec: the options of \<^verbatim>\<open>createSitemapIndex\<close>, as the test
  passes them.\<close>

record ISitemapIndexOptions =
  i_urls :: "elem list"
  i_targetFolder :: "string option"
  i_hostname :: "string option"
  i_cacheTime :: "int option"
  i_sitemapName :: "string option"
  i_sitemapSize :: "nat option"
  i_xslUrl :: "string option"
  i_gzip :: bool

text \<open>Modelled from the spec: writing a file, replacing one of the same path.\<close>

definition writeFileSync :: "string \<Rightarrow> string \<Rightarrow> FileSystem \<Rightarrow> FileSystem" where
  "writeFileSync path content fs = fs\<lparr>fs_files := AList.update path content (fs_files fs)\<rparr>"

text \<open>Modelled from the spec: consecutive chunks of at most \<open>n\<close> entries, in the
  original order.\<close>

function chunks :: "nat \<Rightarrow> 'a list \<Rightarrow> 'a list list" where
  "chunks n xs = (if n = 0 \<or> xs = [] then [] else take n xs # chunks n (drop n xs))"
  by pat_completeness auto
termination
  by (relation "measure (\<lambda>(n, xs). length xs)") auto

declare chunks.simps [simp del]

text \<open>Modelled from the spec: the decimal digits of the index of a chunk in its
  file name.\<close>

fun string_of_nat :: "nat \<Rightarrow> string" where
  "string_of_nat n =
     (if n < 10 then [''0123456789'' ! n]
      else string_of_nat (n div 10) @ [''0123456789'' ! (n mod 10)])"

declare string_of_nat.simps [simp del]

text \<open>Modelled from the spec: the target location is configured when a target
  folder is given and exists.\<close>

definition targetConfigured :: "ISitemapIndexOptions \<Rightarrow> FileSystem \<Rightarrow> bool" where
  "targetConfigured conf fs =
     (case i_targetFolder conf of None \<Rightarrow> False | Some d \<Rightarrow> d \<in> set (fs_dirs fs))"

text \<open>Modelled from the spec: one chunk.  A document is built from the chunk,
  serialised, compressed when asked for, and written to the target folder.  The
  location of the file is returned.\<close>

definition writeChunk ::
  "env \<Rightarrow> ISitemapIndexOptions \<Rightarrow> nat \<Rightarrow> elem list \<Rightarrow> FileSystem \<Rightarrow> (error + string) \<times> FileSystem" where
  "writeChunk env conf i chunk fs =
     (let name = (case i_sitemapName conf of None \<Rightarrow> ''sitemap'' | Some n \<Rightarrow> n)
                   @ ''-'' @ string_of_nat i @ (if i_gzip conf then ''.xml.gz'' else ''.xml'')
      in case new_Sitemap env
                \<lparr>o_urls = Some chunk, o_hostname = i_hostname conf,
                 o_cacheTime = i_cacheTime conf, o_xslUrl = i_xslUrl conf,
                 o_xmlNs = None, o_level = None\<rparr> of
           Inl e \<Rightarrow> (Inl e, fs)
         | Inr sm \<Rightarrow>
             (case fst (toString env False 0 0 sm) of
                Inl e \<Rightarrow> (Inl e, fs)
              | Inr doc \<Rightarrow>
                  (Inr ((case i_hostname conf of None \<Rightarrow> [] | Some h \<Rightarrow> h) @ ''/'' @ name),
                   writeFileSync (the (i_targetFolder conf) @ ''/'' @ name)
                     (if i_gzip conf then gzipSync env doc else doc) fs)))"

text \<open>Modelled from the spec: the chunks in order; a failing chunk ends the loop
  and the files of the earlier chunks stay.\<close>

fun writeChunks ::
  "env \<Rightarrow> ISitemapIndexOptions \<Rightarrow> nat \<Rightarrow> elem list list \<Rightarrow> FileSystem \<Rightarrow>
   (error + string list) \<times> FileSystem" where
  "writeChunks env conf i [] fs = (Inr [], fs)"
| "writeChunks env conf i (c # cs) fs =
     (case writeChunk env conf i c fs of
        (Inl e, fs') \<Rightarrow> (Inl e, fs')
      | (Inr loc, fs') \<Rightarrow>
          (case writeChunks env conf (Suc i) cs fs' of
             (Inl e, fs'') \<Rightarrow> (Inl e, fs'')
           | (Inr locs, fs'') \<Rightarrow> (Inr (loc # locs), fs'')))"

text \<open>
  Modelled from the spec: \<^verbatim>\<open>createSitemapIndex\<close> (the module \<^verbatim>\<open>lib/sitemap-index\<close> is
  not among the sources; its test is).  The spec, section 4.5: the call fails
  fast, before any partitioning, when the target location is not configured;
  otherwise the entries are partitioned into consecutive chunks of at most
  \<^verbatim>\<open>sitemapSize\<close> entries (50,000 by default, section 6), each chunk is written as
  a document, and an index document referring to each of them is written.  The
  test adds the file names (\<^verbatim>\<open>sm-test-0.xml\<close>, \<^verbatim>\<open>sm-test-index.xml\<close>, \<^verbatim>\<open>.xml.gz\<close>
  with \<^verbatim>\<open>gzip\<close>), the error \<^verbatim>\<open>UndefinedTargetFolder\<close> for a target folder that does
  not exist, and the result \<^verbatim>\<open>true\<close>.
\<close>

definition createSitemapIndex ::
  "env \<Rightarrow> ISitemapIndexOptions \<Rightarrow> FileSystem \<Rightarrow> (error + bool) \<times> FileSystem" where
  "createSitemapIndex env conf fs =
     (if \<not> targetConfigured conf fs then (Inl UndefinedTargetFolderError, fs)
      else
        (case writeChunks env conf 0
                (chunks (case i_sitemapSize conf of None \<Rightarrow> 50000 | Some n \<Rightarrow> n) (i_urls conf))
                fs of
           (Inl e, fs') \<Rightarrow> (Inl e, fs')
         | (Inr locs, fs') \<Rightarrow>
             (Inr True,
              writeFileSync
                (the (i_targetFolder conf) @ ''/''
                   @ (case i_sitemapName conf of None \<Rightarrow> ''sitemap'' | Some n \<Rightarrow> n)
                   @ ''-index.xml'')
                (buildSitemapIndex env locs (i_xslUrl conf)) fs')))"

section \<open>Predicates of the properties\<close>

text \<open>An absolute URL starts with a scheme: a letter, then letters, digits,
  \<open>+\<close>, \<open>-\<close> or \<open>.\<close>, then a colon.\<close>

definition is_alpha :: "char \<Rightarrow> bool" where
  "is_alpha c =
     (let n = (of_char c :: nat) in (65 \<le> n \<and> n \<le> 90) \<or> (97 \<le> n \<and> n \<le> 122))"

definition is_scheme_char :: "char \<Rightarrow> bool" where
  "is_scheme_char c =
     (let n = (of_char c :: nat)
      in is_alpha c \<or> (48 \<le> n \<and> n \<le> 57) \<or> n = 43 \<or> n = 45 \<or> n = 46)"

fun scheme_tail :: "string \<Rightarrow> bool" where
  "scheme_tail [] = False"
| "scheme_tail (c # cs) = (c = CHR '':'' \<or> (is_scheme_char c \<and> scheme_tail cs))"

fun isAbsoluteURL :: "string \<Rightarrow> bool" where
  "isAbsoluteURL [] = False"
| "isAbsoluteURL (c # cs) = (is_alpha c \<and> scheme_tail cs)"

text \<open>The URLs of a video: the thumbnail, the content and the player location.\<close>

definition video_urls :: "IVideoItem \<Rightarrow> string list" where
  "video_urls v =
     v_thumbnail_loc v
       # (case v_content_loc v of None \<Rightarrow> [] | Some u \<Rightarrow> [u])
       @ (case v_player_loc v of None \<Rightarrow> [] | Some u \<Rightarrow> [u])"

text \<open>Every URL of a strict entry.\<close>

definition entry_urls :: "SitemapItemOptions \<Rightarrow> string list" where
  "entry_urls smi =
     url smi # map img_url (img smi) @ map link_url (links smi)
       @ concat (map video_urls (video smi))"

definition all_urls_absolute :: "SitemapItemOptions \<Rightarrow> bool" where
  "all_urls_absolute smi = list_all isAbsoluteURL (entry_urls smi)"

text \<open>The resolved URLs of a strict entry: its own, those of its images and of
  its links.\<close>

definition resolved_urls_absolute :: "SitemapItemOptions \<Rightarrow> bool" where
  "resolved_urls_absolute smi =
     list_all isAbsoluteURL (url smi # map img_url (img smi) @ map link_url (links smi))"

text \<open>The URL class of Node only ever serialises an absolute URL.\<close>

definition URL_absolute :: "env \<Rightarrow> bool" where
  "URL_absolute env = (\<forall>u b r. new_URL env u b = Some r \<longrightarrow> isAbsoluteURL r)"

section \<open>Reference collaborators\<close>

text \<open>
  Concrete collaborators, on which the definitions above can be evaluated.  The
  resolver returns an absolute URL as it is and prefixes a base with a scheme
  to anything else; one file, \<^verbatim>\<open>/srv/index.html\<close>, exists, and two date strings
  parse.  Validation accepts every entry.  An attribute is accepted when its
  name starts with a letter, an underscore or a colon.  The writer puts out the processing
  instructions, the root with its attributes, and the children.
\<close>

definition ref_new_URL :: "string \<Rightarrow> string option \<Rightarrow> string option" where
  "ref_new_URL u b =
     (if isAbsoluteURL u then Some u
      else (case b of
              None \<Rightarrow> None
            | Some h \<Rightarrow> if isAbsoluteURL h then Some (h @ u) else None))"

definition ref_loc :: "SitemapItemOptions \<Rightarrow> string" where
  "ref_loc smi = ''<url><loc>'' @ url smi @ ''</loc></url>''"

definition ref_xml_end :: "XMLElement \<Rightarrow> bool \<Rightarrow> string" where
  \<open>ref_xml_end r pretty =
     ''<?xml version="1.0" encoding="UTF-8"?>''
       @ concat (map (\<lambda>(t, v). ''<?'' @ t @ '' '' @ v @ ''?>'') (x_instructions r))
       @ ''<urlset''
       @ concat (map (\<lambda>(k, v). '' '' @ k @ ''="'' @ v @ ''"'') (x_attributes r))
       @ ''>'' @ concat (x_children r) @ ''</urlset>''\<close>

definition refEnv :: env where
  "refEnv =
     \<lparr>new_URL = ref_new_URL,
      statSync_mtime = (\<lambda>p. if p = ''/srv/index.html'' then Some (Some 86400000) else None),
      Date_parse = (\<lambda>s. if s = ''1970-01-01'' then Some 0
                         else if s = ''1970-01-03'' then Some 172800000 else None),
      format_ISO = (\<lambda>t. if t = 0 then ''1970-01-01T00:00:00.000Z''
                         else if t = 86400000 then ''1970-01-02T00:00:00.000Z''
                         else if t = 172800000 then ''1970-01-03T00:00:00.000Z''
                         else ''-''),
      parseFloat = (\<lambda>s. NaN),
      number_toString = (\<lambda>n. ''NaN''),
      validateSMIOptions = (\<lambda>smi level. None),
      justItem = (\<lambda>smi level. Inr (ref_loc smi)),
      buildXML = (\<lambda>smi. Inr (ref_loc smi)),
      attribute_ok = (\<lambda>k v. case k of [] \<Rightarrow> False
                                | c # cs \<Rightarrow> is_alpha c \<or> c = CHR ''_'' \<or> c = CHR '':''),
      xml_end = ref_xml_end,
      gzipSync = (\<lambda>s. s),
      buildSitemapIndex = (\<lambda>locs xsl. concat locs)\<rparr>"

section \<open>Example inputs\<close>

text \<open>A document with a base hostname and no entries, a loose entry with a
  relative URL and a change frequency, and the strict entry of \<^verbatim>\<open>/a\<close> under that
  hostname.\<close>

definition exDoc :: Sitemap where
  "exDoc = \<lparr>limit = 5000, xmlNs = [], cacheSetTimestamp = 0, urls = [], cacheTime = 0,
     cache = [], root = create_urlset, hostname = Some ''https://example.com'', xslUrl = None\<rparr>"

definition exLoose :: ISitemapItemOptionsLoose where
  "exLoose = \<lparr>l_url = ''/a'', l_img = None, l_video = None, l_links = None, l_lastmod = None,
     l_lastmodISO = None, l_lastmodfile = None, l_changefreq = Some ''daily'',
     l_priority = None, l_rest = []\<rparr>"

definition exStrict :: "string option \<Rightarrow> SitemapItemOptions" where
  "exStrict cf = \<lparr>url = ''https://example.com/a'', img = [], video = [], links = [],
     lastmod = None, lastmodISO = None, lastmodfile = None, changefreq = cf,
     priority = None, rest = []\<rparr>"

text \<open>An entry with all three sources of a last-modified date.\<close>

definition exDated :: ISitemapItemOptionsLoose where
  "exDated = \<lparr>l_url = ''/a'', l_img = None, l_video = None, l_links = None,
     l_lastmod = Some ''1970-01-03'', l_lastmodISO = Some ''1970-01-01'',
     l_lastmodfile = Some ''/srv/index.html'', l_changefreq = None,
     l_priority = None, l_rest = []\<rparr>"

text \<open>An entry with an image given as a string, one video given as an object and
  one alternate link, all with relative URLs, and the strict entry it normalises to
  under the hostname \<^verbatim>\<open>https://example.com\<close>.\<close>

definition exVideo :: IVideoItemLoose where
  "exVideo = \<lparr>vl_thumbnail_loc = ''/t.jpg'', vl_title = ''t'', vl_description = ''d'',
     vl_content_loc = None, vl_player_loc = None, vl_family_friendly = Some (Bool True),
     vl_live = None, vl_requires_subscription = None, vl_tag = None, vl_rating = None,
     vl_view_count = None, vl_rest = []\<rparr>"

definition exMedia :: ISitemapItemOptionsLoose where
  "exMedia = \<lparr>l_url = ''/a'', l_img = Some (ImgStr ''/i.png''), l_video = Some (VideoObj exVideo),
     l_links = Some [\<lparr>link_lang = ''en'', link_url = ''/en/a''\<rparr>],
     l_lastmod = None, l_lastmodISO = None, l_lastmodfile = None, l_changefreq = None,
     l_priority = None, l_rest = []\<rparr>"

definition exMediaStrict :: SitemapItemOptions where
  "exMediaStrict = \<lparr>url = ''https://example.com/a'',
     img = [img_of_url ''https://example.com/i.png''],
     video = [normalizeVideo refEnv exVideo],
     links = [\<lparr>link_lang = ''en'', link_url = ''https://example.com/en/a''\<rparr>],
     lastmod = None, lastmodISO = None, lastmodfile = None, changefreq = None,
     priority = None, rest = []\<rparr>"

text \<open>Two entries written to a stream.\<close>

definition exItems :: "elem list" where
  "exItems = [ElemStr ''/a'', ElemStr ''https://example.org/b'']"

text \<open>A document with a stylesheet and a cache time of one second; the root of
  its serialisation with a given list of processing instructions.\<close>

definition exXslOpts :: ISitemapOptions where
  "exXslOpts = \<lparr>o_urls = Some [ElemStr ''https://example.com/a''], o_hostname = None,
     o_cacheTime = Some 1000, o_xslUrl = Some ''https://example.com/style.xsl'',
     o_xmlNs = None, o_level = None\<rparr>"

definition exXslDoc :: Sitemap where
  "exXslDoc = \<lparr>limit = 5000, xmlNs = [], cacheSetTimestamp = 0,
     urls = [(''https://example.com/a'', exStrict None)],
     cacheTime = 1000, cache = [], root = create_urlset, hostname = None,
     xslUrl = Some ''https://example.com/style.xsl''\<rparr>"

definition exXslRoot :: "(string \<times> string) list \<Rightarrow> XMLElement" where
  "exXslRoot instructions =
     \<lparr>x_instructions = instructions,
      x_attributes =
        [(''xmlns'', ''http://www.sitemaps.org/schemas/sitemap/0.9''),
         (''xmlns:news'', ''http://www.google.com/schemas/sitemap-news/0.9''),
         (''xmlns:xhtml'', ''http://www.w3.org/1999/xhtml''),
         (''xmlns:mobile'', ''http://www.google.com/schemas/sitemap-mobile/1.0''),
         (''xmlns:image'', ''http://www.google.com/schemas/sitemap-image/1.1''),
         (''xmlns:video'', ''http://www.google.com/schemas/sitemap-video/1.1'')],
      x_children = [''<url><loc>https://example.com/a</loc></url>'']\<rparr>"

definition exXslInstruction :: "string \<times> string" where
  "exXslInstruction = stylesheetInstruction ''https://example.com/style.xsl''"

text \<open>The options of the test of \<^verbatim>\<open>createSitemapIndex\<close> that expects
  \<^verbatim>\<open>UndefinedTargetFolder\<close>, and a file system where \<^verbatim>\<open>/tmp\<close> exists and \<^verbatim>\<open>/tmp2\<close> does
  not.\<close>

definition exIndexConf :: ISitemapIndexOptions where
  "exIndexConf = \<lparr>i_urls = [ElemStr ''http://ya.ru/'', ElemStr ''http://ya2.ru/''],
     i_targetFolder = Some ''/tmp2'', i_hostname = Some ''https://www.sitemap.org'',
     i_cacheTime = Some 600000, i_sitemapName = Some ''sm-test'', i_sitemapSize = Some 1,
     i_xslUrl = None, i_gzip = False\<rparr>"

definition exFs :: FileSystem where
  "exFs = \<lparr>fs_dirs = [''/tmp''], fs_files = []\<rparr>"

section \<open>Facts about normalisation\<close>

lemmas ref_simps = refEnv_def ref_new_URL_def is_alpha_def is_scheme_char_def ref_loc_def

lemmas norm_simps = normalizeURL_def normalizeLoose_def resolve_def loose_imgs_def img_after_def
  loose_links_def loose_videos_def video_after_def resolveLastmod_def spread_def
  resolve_img_def resolve_link_def toISOString_def img_of_url_def normalizeVideo_def

lemma img_after_idem: "img_after (img_after i) = img_after i"
  by (cases i rule: img_truthy.cases) (simp_all add: img_after_def)

lemma video_after_idem: "video_after (video_after v) = video_after v"
  by (cases v) (simp_all add: video_after_def)

lemma loose_imgs_after: "loose_imgs (l\<lparr>l_img := img_after (l_img l)\<rparr>) = loose_imgs l"
  by (cases "l_img l" rule: img_truthy.cases) (simp_all add: loose_imgs_def img_after_def)

lemma loose_videos_after: "loose_videos (l\<lparr>l_video := video_after (l_video l)\<rparr>) = loose_videos l"
  by (cases "l_video l") (simp_all add: loose_videos_def video_after_def)

lemma resolveLastmod_frame [simp]:
  "resolveLastmod env (l\<lparr>l_img := i\<rparr>) = resolveLastmod env l"
  "resolveLastmod env (l\<lparr>l_video := v\<rparr>) = resolveLastmod env l"
  by (simp_all add: resolveLastmod_def cong: option.case_cong)

lemma spread_frame [simp]:
  "spread (l\<lparr>l_img := i\<rparr>) = spread l"
  "spread (l\<lparr>l_video := v\<rparr>) = spread l"
  by (simp_all add: spread_def fun_eq_iff cong: option.case_cong)

lemma loose_links_frame [simp]:
  "loose_links (l\<lparr>l_img := i\<rparr>) = loose_links l"
  "loose_links (l\<lparr>l_video := v\<rparr>) = loose_links l"
  by (simp_all add: loose_links_def)

lemma loose_videos_frame [simp]:
  "loose_videos (l\<lparr>l_img := i\<rparr>) = loose_videos l"
  by (simp add: loose_videos_def)

lemma loose_imgs_frame [simp]:
  "loose_imgs (l\<lparr>l_video := v\<rparr>) = loose_imgs l"
  by (simp add: loose_imgs_def)

text \<open>A successful call: what it leaves in the argument and what it returns.\<close>

lemma normalizeLoose_success:
  "normalizeLoose env l h = (l', Inr smi) \<Longrightarrow>
     l' = l\<lparr>l_img := img_after (l_img l), l_video := video_after (l_video l)\<rparr> \<and>
     (\<exists>u imgs lnks lm.
        resolve env (l_url l) h = Inr u \<and>
        mapE (resolve_img env h) (loose_imgs l) = Inr imgs \<and>
        mapE (resolve_link env h) (loose_links l) = Inr lnks \<and>
        resolveLastmod env l = Inr lm \<and>
        smi = spread l u imgs (map (normalizeVideo env) (loose_videos l)) lnks lm)"
  by (auto simp: normalizeLoose_def Let_def split: sum.splits)

text \<open>Normalising the argument a second time, as the first call left it, gives
  the same entry and changes nothing more.\<close>

lemma normalizeLoose_again:
  assumes "normalizeLoose env l h = (l', Inr smi)"
  shows "normalizeLoose env l' h = (l', Inr smi)"
proof -
  from normalizeLoose_success[OF assms] obtain u imgs lnks lm where
    l': "l' = l\<lparr>l_img := img_after (l_img l), l_video := video_after (l_video l)\<rparr>"
    and u: "resolve env (l_url l) h = Inr u"
    and i: "mapE (resolve_img env h) (loose_imgs l) = Inr imgs"
    and k: "mapE (resolve_link env h) (loose_links l) = Inr lnks"
    and m: "resolveLastmod env l = Inr lm"
    and smi: "smi = spread l u imgs (map (normalizeVideo env) (loose_videos l)) lnks lm"
    by blast
  have a: "loose_imgs l' = loose_imgs l"
    using loose_imgs_after[of l] by (simp add: l')
  have b: "loose_videos l' = loose_videos l"
    using loose_videos_after[of "l\<lparr>l_img := img_after (l_img l)\<rparr>"] by (simp add: l')
  have c: "loose_links l' = loose_links l" by (simp add: l')
  have d: "resolveLastmod env l' = resolveLastmod env l" by (simp add: l')
  have e: "spread l' = spread l" by (simp add: l')
  have f: "l'\<lparr>l_img := img_after (l_img l')\<rparr> = l'" by (simp add: l' img_after_idem)
  have g: "l'\<lparr>l_video := video_after (l_video l')\<rparr> = l'" by (simp add: l' video_after_idem)
  have hh: "l_url l' = l_url l" by (simp add: l')
  show ?thesis
    unfolding normalizeLoose_def Let_def f g
    by (simp add: hh u a i c k b d m e smi)
qed

lemma normalizeURL_again:
  "normalizeURL env x h = (x', Inr smi) \<Longrightarrow> normalizeURL env x' h = (x', Inr smi)"
  by (cases x) (auto simp: normalizeURL_def split: prod.splits dest: normalizeLoose_again)

lemma ex_norm1:
  "normalizeURL refEnv (ElemStr ''/a'') (Some ''https://example.com'')
     = (ElemStr ''/a'', Inr (exStrict None))"
  by (simp add: norm_simps ref_simps exStrict_def)

lemma ex_norm2:
  "normalizeURL refEnv (ElemObj exLoose) (Some ''https://example.com'')
     = (ElemObj exLoose, Inr (exStrict (Some ''daily'')))"
  by (simp add: norm_simps ref_simps exStrict_def exLoose_def)

lemma normalizeURL_success:
  "normalizeURL env el h = (x', Inr smi) \<Longrightarrow>
     \<exists>l'. normalizeLoose env (smiLoose_of el) h = (l', Inr smi)
        \<and> x' = (case el of ElemStr s \<Rightarrow> ElemStr s | ElemObj _ \<Rightarrow> ElemObj l')"
  by (auto simp: normalizeURL_def split: prod.splits)

lemma lastmod_spread: "lastmod (spread l u i v k lm) = (case lm of None \<Rightarrow> l_lastmod l | Some x \<Rightarrow> Some x)"
  by (simp add: spread_def)

lemma mapE_list_all2:
  "mapE f xs = Inr ys \<Longrightarrow> list_all2 (\<lambda>x y. f x = Inr y) xs ys"
  by (induction xs arbitrary: ys) (auto split: sum.splits)

lemma list_all2_right:
  "list_all2 P xs ys \<Longrightarrow> (\<And>x y. P x y \<Longrightarrow> Q y) \<Longrightarrow> list_all Q ys"
  by (induction rule: list_all2_induct) auto

lemma resolve_Inr: "resolve env u h = Inr r \<longleftrightarrow> new_URL env u h = Some r"
  by (simp add: resolve_def split: option.splits)

lemma resolve_img_Inr:
  "resolve_img env h i = Inr j \<longleftrightarrow> new_URL env (img_url i) h = Some (img_url j) \<and> j = i\<lparr>img_url := img_url j\<rparr>"
  by (auto simp: resolve_img_def resolve_def split: option.splits)

lemma resolve_link_Inr:
  "resolve_link env h i = Inr j \<longleftrightarrow> new_URL env (link_url i) h = Some (link_url j) \<and> j = i\<lparr>link_url := link_url j\<rparr>"
  by (auto simp: resolve_link_def resolve_def split: option.splits)

lemma scheme_tail_append: "scheme_tail cs \<Longrightarrow> scheme_tail (cs @ u)"
  by (induction cs) auto

lemma isAbsoluteURL_append: "isAbsoluteURL h \<Longrightarrow> isAbsoluteURL (h @ u)"
  by (cases h) (auto simp: scheme_tail_append)

lemma refEnv_URL_absolute: "URL_absolute refEnv"
  by (auto simp: URL_absolute_def refEnv_def ref_new_URL_def isAbsoluteURL_append
           split: if_splits option.splits)

lemma ex_norm_media:
  "normalizeURL refEnv (ElemObj exMedia) (Some ''https://example.com'')
     = (ElemObj (exMedia\<lparr>l_img := Some (ImgArr [Inr (img_of_url ''/i.png'')]),
                        l_video := Some (VideoArr [exVideo])\<rparr>),
        Inr exMediaStrict)"
  by (simp add: normalizeURL_def normalizeLoose_def resolve_def loose_imgs_def img_after_def
      loose_links_def loose_videos_def video_after_def resolveLastmod_def spread_def
      resolve_img_def resolve_link_def img_of_url_def ref_simps exMedia_def exMediaStrict_def)

section \<open>Last-modified date\<close>

text \<open>When the URLs of the entry, of its images and of its links resolve, the
  result of normalisation is decided by the last-modified block alone.\<close>

lemma normalizeLoose_lastmod:
  assumes "resolve env (l_url l) h = Inr u"
    and "mapE (resolve_img env h) (loose_imgs l) = Inr imgs"
    and "mapE (resolve_link env h) (loose_links l) = Inr lnks"
  shows "snd (normalizeLoose env l h) =
           (case resolveLastmod env l of
              Inl e \<Rightarrow> Inl e
            | Inr lm \<Rightarrow> Inr (spread l u imgs (map (normalizeVideo env) (loose_videos l)) lnks lm))"
  using assms by (simp add: normalizeLoose_def Let_def split: sum.splits)

lemma snd_normalizeURL: "snd (normalizeURL env el h) = snd (normalizeLoose env (smiLoose_of el) h)"
  by (simp add: normalizeURL_def split: prod.splits)

lemma ex_dated_urls:
  "l_url l = ''/a'' \<Longrightarrow> l_img l = None \<Longrightarrow> l_links l = None \<Longrightarrow>
     resolve refEnv (l_url l) (Some ''https://example.com'') = Inr ''https://example.com/a''
     \<and> mapE (resolve_img refEnv (Some ''https://example.com'')) (loose_imgs l) = Inr []
     \<and> mapE (resolve_link refEnv (Some ''https://example.com'')) (loose_links l) = Inr []"
  by (simp add: resolve_def loose_imgs_def loose_links_def ref_simps)

lemma ref_dates:
  "statSync_mtime refEnv ''/srv/index.html'' = Some (Some 86400000)"
  "statSync_mtime refEnv ''/missing'' = None"
  "Date_parse refEnv ''1970-01-01'' = Some 0"
  "Date_parse refEnv ''1970-01-03'' = Some 172800000"
  "Date_parse refEnv ''yesterday'' = None"
  "format_ISO refEnv 0 = ''1970-01-01T00:00:00.000Z''"
  "format_ISO refEnv 86400000 = ''1970-01-02T00:00:00.000Z''"
  "format_ISO refEnv 172800000 = ''1970-01-03T00:00:00.000Z''"
  by (simp_all add: refEnv_def)

text \<open>
  Claim C4.  The last-modified date of the strict entry follows the order
  \<^verbatim>\<open>lastmodfile\<close>, \<^verbatim>\<open>lastmodISO\<close>, \<^verbatim>\<open>lastmod\<close>, the first one given winning, where
  given is the test of the source: defined and not the empty string.  For an
  entry whose URLs resolve: with \<^verbatim>\<open>lastmodfile\<close> the modification time of the file
  is read and normalisation returns an entry whose date is that time in
  ISO-8601 (it throws when the file cannot be read or the time is not valid, and
  does not fall through to the other two); otherwise with \<^verbatim>\<open>lastmodISO\<close> that
  string is parsed as a date and normalisation returns an entry with the date
  in ISO-8601 (it throws when the date is not valid); otherwise with \<^verbatim>\<open>lastmod\<close>
  likewise.  When none is given normalisation returns an entry for which no date
  was computed and which carries none; in particular \<^verbatim>\<open>lastmod\<close> is undefined when
  all three are.  For a string argument all three are undefined.
\<close>

theorem lastmod_precedence:
  assumes "l = smiLoose_of el"
    and "resolve env (l_url l) h = Inr u"
    and "mapE (resolve_img env h) (loose_imgs l) = Inr imgs"
    and "mapE (resolve_link env h) (loose_links l) = Inr lnks"
  shows "(truthy (l_lastmodfile l) \<longrightarrow>
            (\<forall>t. statSync_mtime env (the (l_lastmodfile l)) = Some (Some t) \<longrightarrow>
                 (\<exists>smi. snd (normalizeURL env el h) = Inr smi
                      \<and> lastmod smi = Some (format_ISO env t)))
          \<and> (statSync_mtime env (the (l_lastmodfile l)) = None \<longrightarrow>
                 snd (normalizeURL env el h) = Inl (FsError (the (l_lastmodfile l))))
          \<and> (statSync_mtime env (the (l_lastmodfile l)) = Some None \<longrightarrow>
                 snd (normalizeURL env el h) = Inl RangeError_InvalidTime))
       \<and> (\<not> truthy (l_lastmodfile l) \<and> truthy (l_lastmodISO l) \<longrightarrow>
            (\<forall>t. Date_parse env (the (l_lastmodISO l)) = Some t \<longrightarrow>
                 (\<exists>smi. snd (normalizeURL env el h) = Inr smi
                      \<and> lastmod smi = Some (format_ISO env t)))
          \<and> (Date_parse env (the (l_lastmodISO l)) = None \<longrightarrow>
                 snd (normalizeURL env el h) = Inl RangeError_InvalidTime))
       \<and> (\<not> truthy (l_lastmodfile l) \<and> \<not> truthy (l_lastmodISO l) \<and> truthy (l_lastmod l) \<longrightarrow>
            (\<forall>t. Date_parse env (the (l_lastmod l)) = Some t \<longrightarrow>
                 (\<exists>smi. snd (normalizeURL env el h) = Inr smi
                      \<and> lastmod smi = Some (format_ISO env t)))
          \<and> (Date_parse env (the (l_lastmod l)) = None \<longrightarrow>
                 snd (normalizeURL env el h) = Inl RangeError_InvalidTime))
       \<and> (\<not> truthy (l_lastmodfile l) \<and> \<not> truthy (l_lastmodISO l) \<and> \<not> truthy (l_lastmod l) \<longrightarrow>
            (\<exists>smi. snd (normalizeURL env el h) = Inr smi
                 \<and> lastmod smi = l_lastmod l \<and> \<not> truthy (lastmod smi)))
       \<and> (l_lastmodfile l = None \<and> l_lastmodISO l = None \<and> l_lastmod l = None \<longrightarrow>
            (\<exists>smi. snd (normalizeURL env el h) = Inr smi \<and> lastmod smi = None))"
proof -
  have n: "snd (normalizeURL env el h) =
           (case resolveLastmod env l of
              Inl e \<Rightarrow> Inl e
            | Inr lm \<Rightarrow> Inr (spread l u imgs (map (normalizeVideo env) (loose_videos l)) lnks lm))"
    using normalizeLoose_lastmod[OF assms(2-4)] by (simp add: snd_normalizeURL assms(1))
  have byfile: "truthy (l_lastmodfile l) \<Longrightarrow>
      resolveLastmod env l =
        (case statSync_mtime env (the (l_lastmodfile l)) of
           None \<Rightarrow> Inl (FsError (the (l_lastmodfile l)))
         | Some None \<Rightarrow> Inl RangeError_InvalidTime
         | Some (Some t) \<Rightarrow> Inr (Some (format_ISO env t)))"
    by (simp add: resolveLastmod_def toISOString_def split: option.splits)
  have byiso: "\<not> truthy (l_lastmodfile l) \<Longrightarrow> truthy (l_lastmodISO l) \<Longrightarrow>
      resolveLastmod env l =
        (case Date_parse env (the (l_lastmodISO l)) of
           None \<Rightarrow> Inl RangeError_InvalidTime
         | Some t \<Rightarrow> Inr (Some (format_ISO env t)))"
    by (simp add: resolveLastmod_def toISOString_def split: option.splits)
  have bylm: "\<not> truthy (l_lastmodfile l) \<Longrightarrow> \<not> truthy (l_lastmodISO l) \<Longrightarrow> truthy (l_lastmod l) \<Longrightarrow>
      resolveLastmod env l =
        (case Date_parse env (the (l_lastmod l)) of
           None \<Rightarrow> Inl RangeError_InvalidTime
         | Some t \<Rightarrow> Inr (Some (format_ISO env t)))"
    by (simp add: resolveLastmod_def toISOString_def split: option.splits)
  have bynone: "\<not> truthy (l_lastmodfile l) \<Longrightarrow> \<not> truthy (l_lastmodISO l) \<Longrightarrow> \<not> truthy (l_lastmod l) \<Longrightarrow>
      resolveLastmod env l = Inr None"
    by (simp add: resolveLastmod_def)
  have 1: "truthy (l_lastmodfile l) \<longrightarrow>
            (\<forall>t. statSync_mtime env (the (l_lastmodfile l)) = Some (Some t) \<longrightarrow>
                 (\<exists>smi. snd (normalizeURL env el h) = Inr smi
                      \<and> lastmod smi = Some (format_ISO env t)))
          \<and> (statSync_mtime env (the (l_lastmodfile l)) = None \<longrightarrow>
                 snd (normalizeURL env el h) = Inl (FsError (the (l_lastmodfile l))))
          \<and> (statSync_mtime env (the (l_lastmodfile l)) = Some None \<longrightarrow>
                 snd (normalizeURL env el h) = Inl RangeError_InvalidTime)"
    by (simp add: n byfile lastmod_spread)
  have 2: "\<not> truthy (l_lastmodfile l) \<and> truthy (l_lastmodISO l) \<longrightarrow>
            (\<forall>t. Date_parse env (the (l_lastmodISO l)) = Some t \<longrightarrow>
                 (\<exists>smi. snd (normalizeURL env el h) = Inr smi
                      \<and> lastmod smi = Some (format_ISO env t)))
          \<and> (Date_parse env (the (l_lastmodISO l)) = None \<longrightarrow>
                 snd (normalizeURL env el h) = Inl RangeError_InvalidTime)"
    by (simp add: n byiso lastmod_spread)
  have 3: "\<not> truthy (l_lastmodfile l) \<and> \<not> truthy (l_lastmodISO l) \<and> truthy (l_lastmod l) \<longrightarrow>
            (\<forall>t. Date_parse env (the (l_lastmod l)) = Some t \<longrightarrow>
                 (\<exists>smi. snd (normalizeURL env el h) = Inr smi
                      \<and> lastmod smi = Some (format_ISO env t)))
          \<and> (Date_parse env (the (l_lastmod l)) = None \<longrightarrow>
                 snd (normalizeURL env el h) = Inl RangeError_InvalidTime)"
    by (simp add: n bylm lastmod_spread)
  have 4: "\<not> truthy (l_lastmodfile l) \<and> \<not> truthy (l_lastmodISO l) \<and> \<not> truthy (l_lastmod l) \<longrightarrow>
            (\<exists>smi. snd (normalizeURL env el h) = Inr smi
                 \<and> lastmod smi = l_lastmod l \<and> \<not> truthy (lastmod smi))"
    by (simp add: n bynone lastmod_spread)
  have 5: "l_lastmodfile l = None \<and> l_lastmodISO l = None \<and> l_lastmod l = None \<longrightarrow>
            (\<exists>smi. snd (normalizeURL env el h) = Inr smi \<and> lastmod smi = None)"
    using 4 by auto
  from 1 2 3 4 5 show ?thesis by blast
qed

text \<open>Under the reference collaborators: \<open>exDated\<close> gives all three and gets the
  date of the file; without \<^verbatim>\<open>lastmodfile\<close> it gets the date of \<^verbatim>\<open>lastmodISO\<close>; with an
  empty \<^verbatim>\<open>lastmodISO\<close> as well, the date of \<^verbatim>\<open>lastmod\<close>; \<open>exLoose\<close> gives none and gets
  none; a file that does not exist and a string that is no date make the call
  throw.\<close>

theorem lastmod_precedence_witness:
  "map_sum id lastmod
     (snd (normalizeURL refEnv (ElemObj exDated) (Some ''https://example.com'')))
     = Inr (Some ''1970-01-02T00:00:00.000Z'')
   \<and> map_sum id lastmod
     (snd (normalizeURL refEnv (ElemObj (exDated\<lparr>l_lastmodfile := None\<rparr>))
            (Some ''https://example.com'')))
     = Inr (Some ''1970-01-01T00:00:00.000Z'')
   \<and> map_sum id lastmod
     (snd (normalizeURL refEnv (ElemObj (exDated\<lparr>l_lastmodISO := Some [], l_lastmodfile := None\<rparr>))
            (Some ''https://example.com'')))
     = Inr (Some ''1970-01-03T00:00:00.000Z'')
   \<and> map_sum id lastmod
     (snd (normalizeURL refEnv (ElemObj exLoose) (Some ''https://example.com'')))
     = Inr None
   \<and> snd (normalizeURL refEnv (ElemObj (exDated\<lparr>l_lastmodfile := Some ''/missing''\<rparr>))
            (Some ''https://example.com''))
     = Inl (FsError ''/missing'')
   \<and> snd (normalizeURL refEnv (ElemObj (exDated\<lparr>l_lastmodISO := Some ''yesterday'', l_lastmodfile := None\<rparr>))
            (Some ''https://example.com''))
     = Inl RangeError_InvalidTime"
proof -
  let ?h = "Some ''https://example.com''"
  let ?iso = "exDated\<lparr>l_lastmodfile := None\<rparr>"
  let ?lm = "exDated\<lparr>l_lastmodISO := Some [], l_lastmodfile := None\<rparr>"
  let ?missing = "exDated\<lparr>l_lastmodfile := Some ''/missing''\<rparr>"
  let ?bad = "exDated\<lparr>l_lastmodISO := Some ''yesterday'', l_lastmodfile := None\<rparr>"
  have ra: "resolve refEnv (l_url exDated) ?h = Inr ''https://example.com/a''
      \<and> mapE (resolve_img refEnv ?h) (loose_imgs exDated) = Inr []
      \<and> mapE (resolve_link refEnv ?h) (loose_links exDated) = Inr []"
    by (rule ex_dated_urls) (simp_all add: exDated_def)
  have a: "map_sum id lastmod (snd (normalizeURL refEnv (ElemObj exDated) ?h))
             = Inr (Some ''1970-01-02T00:00:00.000Z'')"
    using lastmod_precedence[of exDated "ElemObj exDated" refEnv ?h "''https://example.com/a''" "[]" "[]"] ra
    by (simp add: exDated_def ref_dates) (auto simp: ref_dates)
  have rb: "resolve refEnv (l_url ?iso) ?h = Inr ''https://example.com/a''
      \<and> mapE (resolve_img refEnv ?h) (loose_imgs ?iso) = Inr []
      \<and> mapE (resolve_link refEnv ?h) (loose_links ?iso) = Inr []"
    by (rule ex_dated_urls) (simp_all add: exDated_def)
  have b: "map_sum id lastmod (snd (normalizeURL refEnv (ElemObj ?iso) ?h))
             = Inr (Some ''1970-01-01T00:00:00.000Z'')"
    using lastmod_precedence[of ?iso "ElemObj ?iso" refEnv ?h "''https://example.com/a''" "[]" "[]"] rb
    by (simp add: exDated_def ref_dates) (auto simp: ref_dates)
  have rc: "resolve refEnv (l_url ?lm) ?h = Inr ''https://example.com/a''
      \<and> mapE (resolve_img refEnv ?h) (loose_imgs ?lm) = Inr []
      \<and> mapE (resolve_link refEnv ?h) (loose_links ?lm) = Inr []"
    by (rule ex_dated_urls) (simp_all add: exDated_def)
  have c: "map_sum id lastmod (snd (normalizeURL refEnv (ElemObj ?lm) ?h))
             = Inr (Some ''1970-01-03T00:00:00.000Z'')"
    using lastmod_precedence[of ?lm "ElemObj ?lm" refEnv ?h "''https://example.com/a''" "[]" "[]"] rc
    by (simp add: exDated_def ref_dates) (auto simp: ref_dates)
  have rd: "resolve refEnv (l_url exLoose) ?h = Inr ''https://example.com/a''
      \<and> mapE (resolve_img refEnv ?h) (loose_imgs exLoose) = Inr []
      \<and> mapE (resolve_link refEnv ?h) (loose_links exLoose) = Inr []"
    by (rule ex_dated_urls) (simp_all add: exLoose_def)
  have d: "map_sum id lastmod (snd (normalizeURL refEnv (ElemObj exLoose) ?h)) = Inr None"
    using lastmod_precedence[of exLoose "ElemObj exLoose" refEnv ?h "''https://example.com/a''" "[]" "[]"] rd
    by (simp add: exLoose_def) auto
  have re: "resolve refEnv (l_url ?missing) ?h = Inr ''https://example.com/a''
      \<and> mapE (resolve_img refEnv ?h) (loose_imgs ?missing) = Inr []
      \<and> mapE (resolve_link refEnv ?h) (loose_links ?missing) = Inr []"
    by (rule ex_dated_urls) (simp_all add: exDated_def)
  have e: "snd (normalizeURL refEnv (ElemObj ?missing) ?h) = Inl (FsError ''/missing'')"
    using lastmod_precedence[of ?missing "ElemObj ?missing" refEnv ?h "''https://example.com/a''" "[]" "[]"] re
    by (simp add: exDated_def ref_dates)
  have rf: "resolve refEnv (l_url ?bad) ?h = Inr ''https://example.com/a''
      \<and> mapE (resolve_img refEnv ?h) (loose_imgs ?bad) = Inr []
      \<and> mapE (resolve_link refEnv ?h) (loose_links ?bad) = Inr []"
    by (rule ex_dated_urls) (simp_all add: exDated_def)
  have f: "snd (normalizeURL refEnv (ElemObj ?bad) ?h) = Inl RangeError_InvalidTime"
    using lastmod_precedence[of ?bad "ElemObj ?bad" refEnv ?h "''https://example.com/a''" "[]" "[]"] rf
    by (simp add: exDated_def ref_dates)
  from a b c d e f show ?thesis by blast
qed

text \<open>The other direction: whenever normalisation returns, the date of the entry
  is the one of the first source given.\<close>

lemma lastmod_when_returned:
  assumes "normalizeURL env el h = (x', Inr smi)" and "l = smiLoose_of el"
  shows "(truthy (l_lastmodfile l) \<longrightarrow>
            (\<exists>t. statSync_mtime env (the (l_lastmodfile l)) = Some (Some t)
                \<and> lastmod smi = Some (format_ISO env t)))
       \<and> (\<not> truthy (l_lastmodfile l) \<and> truthy (l_lastmodISO l) \<longrightarrow>
            (\<exists>t. Date_parse env (the (l_lastmodISO l)) = Some t
                \<and> lastmod smi = Some (format_ISO env t)))
       \<and> (\<not> truthy (l_lastmodfile l) \<and> \<not> truthy (l_lastmodISO l) \<and> truthy (l_lastmod l) \<longrightarrow>
            (\<exists>t. Date_parse env (the (l_lastmod l)) = Some t
                \<and> lastmod smi = Some (format_ISO env t)))
       \<and> (\<not> truthy (l_lastmodfile l) \<and> \<not> truthy (l_lastmodISO l) \<and> \<not> truthy (l_lastmod l) \<longrightarrow>
            lastmod smi = l_lastmod l \<and> \<not> truthy (lastmod smi))
       \<and> (l_lastmodfile l = None \<and> l_lastmodISO l = None \<and> l_lastmod l = None \<longrightarrow>
            lastmod smi = None)"
proof -
  from normalizeURL_success[OF assms(1)] normalizeLoose_success assms(2)
  obtain lm where lm: "resolveLastmod env l = Inr lm"
    and smi: "lastmod smi = (case lm of None \<Rightarrow> l_lastmod l | Some x \<Rightarrow> Some x)"
    by (fastforce simp: lastmod_spread)
  show ?thesis
    using lm smi
    by (auto simp: resolveLastmod_def toISOString_def split: if_splits option.splits)
qed

section \<open>Resolution of URLs\<close>

text \<open>
  Claim C5, as the source has it.  When normalisation succeeds, the URL of the
  strict entry is the URL of the loose entry resolved against the hostname, and
  each image and each alternate link is the loose one with its URL resolved in
  the same way, so that these URLs are absolute whenever the resolver only
  returns absolute URLs.  The locations of a video (thumbnail, content, player)
  are copied as they are.
\<close>

theorem normalize_resolves_urls:
  assumes "normalizeURL env el h = (x', Inr smi)" and "l = smiLoose_of el"
  shows "new_URL env (l_url l) h = Some (url smi)
       \<and> list_all2 (\<lambda>i j. new_URL env (img_url i) h = Some (img_url j) \<and> j = i\<lparr>img_url := img_url j\<rparr>)
            (loose_imgs l) (img smi)
       \<and> list_all2 (\<lambda>i j. new_URL env (link_url i) h = Some (link_url j) \<and> j = i\<lparr>link_url := link_url j\<rparr>)
            (loose_links l) (links smi)
       \<and> (URL_absolute env \<longrightarrow> resolved_urls_absolute smi)
       \<and> map v_thumbnail_loc (video smi) = map vl_thumbnail_loc (loose_videos l)
       \<and> map v_content_loc (video smi) = map vl_content_loc (loose_videos l)
       \<and> map v_player_loc (video smi) = map vl_player_loc (loose_videos l)"
proof -
  from normalizeURL_success[OF assms(1)] normalizeLoose_success assms(2)
  obtain u imgs lnks lm where
        u: "resolve env (l_url l) h = Inr u"
    and i: "mapE (resolve_img env h) (loose_imgs l) = Inr imgs"
    and k: "mapE (resolve_link env h) (loose_links l) = Inr lnks"
    and smi: "smi = spread l u imgs (map (normalizeVideo env) (loose_videos l)) lnks lm"
    by metis
  have s: "url smi = u" "img smi = imgs" "links smi = lnks"
    "video smi = map (normalizeVideo env) (loose_videos l)"
    by (simp_all add: smi spread_def)
  have a: "new_URL env (l_url l) h = Some (url smi)"
    using u by (simp add: resolve_Inr s)
  have b: "list_all2 (\<lambda>i j. new_URL env (img_url i) h = Some (img_url j) \<and> j = i\<lparr>img_url := img_url j\<rparr>)
            (loose_imgs l) (img smi)"
    using mapE_list_all2[OF i] by (simp add: resolve_img_Inr s)
  have c: "list_all2 (\<lambda>i j. new_URL env (link_url i) h = Some (link_url j) \<and> j = i\<lparr>link_url := link_url j\<rparr>)
            (loose_links l) (links smi)"
    using mapE_list_all2[OF k] by (simp add: resolve_link_Inr s)
  have d: "resolved_urls_absolute smi" if abs: "URL_absolute env"
  proof -
    have "isAbsoluteURL (url smi)" using a abs by (auto simp: URL_absolute_def)
    moreover have "list_all (\<lambda>j. isAbsoluteURL (img_url j)) (img smi)"
      using b by (rule list_all2_right) (use abs in \<open>auto simp: URL_absolute_def\<close>)
    moreover have "list_all (\<lambda>j. isAbsoluteURL (link_url j)) (links smi)"
      using c by (rule list_all2_right) (use abs in \<open>auto simp: URL_absolute_def\<close>)
    ultimately show ?thesis
      by (auto simp: resolved_urls_absolute_def list_all_iff)
  qed
  have e: "map v_thumbnail_loc (video smi) = map vl_thumbnail_loc (loose_videos l)"
    "map v_content_loc (video smi) = map vl_content_loc (loose_videos l)"
    "map v_player_loc (video smi) = map vl_player_loc (loose_videos l)"
    by (simp_all add: s normalizeVideo_def comp_def)
  show ?thesis using a b c d e by blast
qed

text \<open>For \<open>exMedia\<close> under the reference resolver.\<close>

theorem normalize_resolves_urls_witness:
  "URL_absolute refEnv
   \<and> url exMediaStrict = ''https://example.com/a''
   \<and> resolved_urls_absolute exMediaStrict
   \<and> map v_thumbnail_loc (video exMediaStrict) = [''/t.jpg'']"
proof -
  from normalize_resolves_urls[OF ex_norm_media, of exMedia] refEnv_URL_absolute
  show ?thesis
    by (simp add: exMediaStrict_def exMedia_def loose_videos_def exVideo_def)
qed

text \<open>
  Claim C5 as stated fails: the entry \<open>exMedia\<close> has a video whose thumbnail is
  \<^verbatim>\<open>/t.jpg\<close>, and the strict entry still has \<^verbatim>\<open>/t.jpg\<close>, which is not absolute.
\<close>

theorem video_urls_not_resolved:
  "map_sum id all_urls_absolute
     (snd (normalizeURL refEnv (ElemObj exMedia) (Some ''https://example.com''))) = Inr False"
  by (simp add: ex_norm_media)
     (simp add: all_urls_absolute_def entry_urls_def video_urls_def exMediaStrict_def
        normalizeVideo_def exVideo_def is_alpha_def)

section \<open>What normalisation writes into its argument\<close>

text \<open>
  Claim C8, as the source has it.  A string argument is left as it is.  Of an
  object argument no field other than \<^verbatim>\<open>img\<close> and \<^verbatim>\<open>video\<close> is written: the object
  after the call is the object before with \<^verbatim>\<open>img\<close> either unchanged or replaced by
  its array form (a string or a single image becomes an array of one image) and
  \<^verbatim>\<open>video\<close> either unchanged or replaced by its array form (a single video becomes
  an array of one); after a successful call both hold their array forms.
\<close>

theorem normalize_writes_img_video:
  "fst (normalizeURL env (ElemStr s) h) = ElemStr s
   \<and> (\<exists>i v. fst (normalizeURL env (ElemObj l) h) = ElemObj (l\<lparr>l_img := i, l_video := v\<rparr>)
          \<and> i \<in> {l_img l, img_after (l_img l)} \<and> v \<in> {l_video l, video_after (l_video l)})
   \<and> (normalizeURL env (ElemObj l) h = (x', Inr smi) \<longrightarrow>
        x' = ElemObj (l\<lparr>l_img := img_after (l_img l), l_video := video_after (l_video l)\<rparr>))"
proof (intro conjI impI)
  show "fst (normalizeURL env (ElemStr s) h) = ElemStr s"
    by (simp add: normalizeURL_def split: prod.splits)
next
  have cases: "fst (normalizeLoose env l h) = l
      \<or> fst (normalizeLoose env l h) = l\<lparr>l_img := img_after (l_img l)\<rparr>
      \<or> fst (normalizeLoose env l h) = l\<lparr>l_img := img_after (l_img l), l_video := video_after (l_video l)\<rparr>"
    by (simp add: normalizeLoose_def Let_def split: sum.splits)
  have 1: "l = l\<lparr>l_img := l_img l, l_video := l_video l\<rparr>" by simp
  have 2: "l\<lparr>l_img := img_after (l_img l)\<rparr> = l\<lparr>l_img := img_after (l_img l), l_video := l_video l\<rparr>"
    by simp
  have f: "fst (normalizeURL env (ElemObj l) h) = ElemObj (fst (normalizeLoose env l h))"
    by (simp add: normalizeURL_def split: prod.splits)
  from cases show "\<exists>i v. fst (normalizeURL env (ElemObj l) h) = ElemObj (l\<lparr>l_img := i, l_video := v\<rparr>)
          \<and> i \<in> {l_img l, img_after (l_img l)} \<and> v \<in> {l_video l, video_after (l_video l)}"
    unfolding f
    apply (elim disjE)
    subgoal by (rule exI[of _ "l_img l"], rule exI[of _ "l_video l"]) simp
    subgoal by (rule exI[of _ "img_after (l_img l)"], rule exI[of _ "l_video l"]) simp
    subgoal by (rule exI[of _ "img_after (l_img l)"], rule exI[of _ "video_after (l_video l)"]) simp
    done
next
  assume "normalizeURL env (ElemObj l) h = (x', Inr smi)"
  from normalizeURL_success[OF this] normalizeLoose_success
  show "x' = ElemObj (l\<lparr>l_img := img_after (l_img l), l_video := video_after (l_video l)\<rparr>)"
    by fastforce
qed

text \<open>For \<open>exMedia\<close>: the image string and the single video have become arrays.\<close>

theorem normalize_writes_img_video_witness:
  "fst (normalizeURL refEnv (ElemObj exMedia) (Some ''https://example.com''))
     = ElemObj (exMedia\<lparr>l_img := Some (ImgArr [Inr (img_of_url ''/i.png'')]),
                        l_video := Some (VideoArr [exVideo])\<rparr>)"
proof -
  from normalize_writes_img_video[of refEnv _ "Some ''https://example.com''" exMedia _ exMediaStrict]
    ex_norm_media
  show ?thesis
    by (simp add: exMedia_def img_after_def video_after_def)
qed

text \<open>
  Claim C8 as stated fails: normalising the object \<open>exMedia\<close>, whose \<^verbatim>\<open>img\<close> is a
  string, leaves an object that differs from it.
\<close>

theorem normalize_mutates_input:
  "fst (normalizeURL refEnv (ElemObj exMedia) (Some ''https://example.com'')) \<noteq> ElemObj exMedia"
  by (simp add: ex_norm_media) (simp add: exMedia_def)

section \<open>The keyed collection of a document\<close>

lemma length_update_present:
  "k \<in> fst ` set al \<Longrightarrow> length (AList.update k v al) = length al"
  by (induction al) auto

lemma length_update_absent:
  "k \<notin> fst ` set al \<Longrightarrow> length (AList.update k v al) = Suc (length al)"
  by (induction al) auto

lemma add_success:
  "add env x lv s = (x', Inr n, s') \<Longrightarrow>
     \<exists>smi. normalizeURL env x (hostname s) = (x', Inr smi) \<and> validateSMIOptions env smi lv = None
       \<and> s' = s\<lparr>urls := AList.update (url smi) smi (urls s)\<rparr> \<and> n = length (urls s')"
  by (auto simp: add_def Let_def split: prod.splits sum.splits option.splits)

text \<open>The keys of the collection stay distinct, as those of a \<^verbatim>\<open>Map\<close> are; on such
  a list \<open>AList.delete\<close> removes the one pair of the key.\<close>

lemma add_keeps_distinct:
  "distinct (map fst (urls s)) \<Longrightarrow> distinct (map fst (urls (snd (snd (add env x lv s)))))"
  by (auto simp: add_def Let_def distinct_update split: prod.splits sum.splits option.splits)

lemma del_keeps_distinct:
  "distinct (map fst (urls s)) \<Longrightarrow> distinct (map fst (urls (snd (snd (del env x s)))))"
  by (auto simp: del_def distinct_delete split: prod.splits sum.splits)

lemma ex_add1:
  "add refEnv (ElemStr ''/a'') None exDoc
     = (ElemStr ''/a'', Inr 1, exDoc\<lparr>urls := [(''https://example.com/a'', exStrict None)]\<rparr>)"
  using ex_norm1 by (simp add: add_def exDoc_def refEnv_def exStrict_def)

lemma ex_add2:
  "add refEnv (ElemObj exLoose) None (exDoc\<lparr>urls := [(''https://example.com/a'', exStrict None)]\<rparr>)
     = (ElemObj exLoose, Inr 1,
        exDoc\<lparr>urls := [(''https://example.com/a'', exStrict (Some ''daily''))]\<rparr>)"
  using ex_norm2 by (simp add: add_def exDoc_def refEnv_def exStrict_def)

text \<open>
  Claim C1.  Adding an entry whose resolved URL is already in the document
  replaces the entry: when two successive calls of \<^verbatim>\<open>add\<close> succeed and their
  arguments resolve to the same URL, the second call returns the same size as the
  first, the collection has the same length after both, and the entry stored
  under that URL is the one of the second call.
\<close>

theorem add_twice_replaces:
  assumes "add env x1 lv1 s = (x1', Inr n1, s1)"
    and "add env x2 lv2 s1 = (x2', Inr n2, s2)"
    and "snd (normalizeURL env x1 (hostname s)) = Inr smi1"
    and "snd (normalizeURL env x2 (hostname s1)) = Inr smi2"
    and "url smi1 = url smi2"
  shows "n2 = n1 \<and> length (urls s2) = length (urls s1)
           \<and> map_of (urls s2) (url smi2) = Some smi2"
proof -
  from add_success[OF assms(1)] assms(3)
  have s1: "s1 = s\<lparr>urls := AList.update (url smi1) smi1 (urls s)\<rparr>" and n1: "n1 = length (urls s1)"
    by auto
  from add_success[OF assms(2)] assms(4)
  have s2: "s2 = s1\<lparr>urls := AList.update (url smi2) smi2 (urls s1)\<rparr>" and n2: "n2 = length (urls s2)"
    by auto
  have "url smi2 \<in> fst ` set (urls s1)"
    using assms(5) by (simp add: s1 dom_update)
  then have "length (urls s2) = length (urls s1)"
    by (simp add: s2 length_update_present)
  moreover have "map_of (urls s2) (url smi2) = Some smi2"
    by (simp add: s2 update_conv')
  ultimately show ?thesis using n1 n2 by simp
qed

text \<open>Adding \<^verbatim>\<open>/a\<close> as a string and then as an object with a change frequency.\<close>

theorem add_twice_replaces_witness:
  "fst (snd (add refEnv (ElemStr ''/a'') None exDoc)) = Inr 1
   \<and> fst (snd (add refEnv (ElemObj exLoose) None
                  (snd (snd (add refEnv (ElemStr ''/a'') None exDoc))))) = Inr 1
   \<and> map_of (urls (snd (snd (add refEnv (ElemObj exLoose) None
                  (snd (snd (add refEnv (ElemStr ''/a'') None exDoc)))))))
        ''https://example.com/a'' = Some (exStrict (Some ''daily''))"
proof -
  have n1: "snd (normalizeURL refEnv (ElemStr ''/a'') (hostname exDoc)) = Inr (exStrict None)"
    using ex_norm1 by (simp add: exDoc_def)
  have n2: "snd (normalizeURL refEnv (ElemObj exLoose)
              (hostname (exDoc\<lparr>urls := [(''https://example.com/a'', exStrict None)]\<rparr>)))
            = Inr (exStrict (Some ''daily''))"
    using ex_norm2 by (simp add: exDoc_def)
  have e: "url (exStrict None) = url (exStrict (Some ''daily''))"
    by (simp add: exStrict_def)
  from add_twice_replaces[OF ex_add1 ex_add2 n1 n2 e] show ?thesis
    by (simp only: ex_add1 ex_add2 fst_conv snd_conv) (simp add: exStrict_def)
qed

text \<open>
  Claim C6.  For an argument that normalises, \<^verbatim>\<open>contains\<close> is true right after
  \<^verbatim>\<open>add\<close> (when validation lets the entry in) and false right after \<^verbatim>\<open>del\<close>, all
  three resolving the argument through \<^verbatim>\<open>normalizeURL\<close> with the hostname of the
  document; \<^verbatim>\<open>del\<close> returns whether the resolved URL was a key before the call.
  The argument of the later call is the object as the earlier call left it.
\<close>

theorem contains_after_add_and_del:
  assumes "normalizeURL env x (hostname s) = (x', Inr smi)"
  shows "(validateSMIOptions env smi lv = None \<longrightarrow>
            (\<exists>s1. add env x lv s = (x', Inr (length (urls s1)), s1)
                 \<and> contains env x' s1 = (x', Inr True)))
       \<and> (\<exists>s2. del env x s = (x', Inr (url smi \<in> fst ` set (urls s)), s2)
                 \<and> contains env x' s2 = (x', Inr False))"
proof -
  have again: "normalizeURL env x' (hostname s) = (x', Inr smi)"
    using assms by (rule normalizeURL_again)
  have "contains env x' (s\<lparr>urls := AList.update (url smi) smi (urls s)\<rparr>) = (x', Inr True)"
    using again by (simp add: contains_def dom_update)
  moreover have "contains env x' (s\<lparr>urls := AList.delete (url smi) (urls s)\<rparr>) = (x', Inr False)"
    using again by (simp add: contains_def delete_notin_dom)
  ultimately show ?thesis
    using assms by (simp add: add_def del_def Let_def)
qed

text \<open>For \<open>exLoose\<close>, added to the empty document and deleted from one that has it.\<close>

theorem contains_after_add_and_del_witness:
  "contains refEnv (ElemObj exLoose) (snd (snd (add refEnv (ElemObj exLoose) None exDoc)))
     = (ElemObj exLoose, Inr True)
   \<and> fst (snd (del refEnv (ElemObj exLoose)
        (exDoc\<lparr>urls := [(''https://example.com/a'', exStrict None)]\<rparr>))) = Inr True
   \<and> contains refEnv (ElemObj exLoose) (snd (snd (del refEnv (ElemObj exLoose)
        (exDoc\<lparr>urls := [(''https://example.com/a'', exStrict None)]\<rparr>))))
     = (ElemObj exLoose, Inr False)"
proof -
  have n: "normalizeURL refEnv (ElemObj exLoose) (hostname exDoc)
             = (ElemObj exLoose, Inr (exStrict (Some ''daily'')))"
    using ex_norm2 by (simp add: exDoc_def)
  have n': "normalizeURL refEnv (ElemObj exLoose)
              (hostname (exDoc\<lparr>urls := [(''https://example.com/a'', exStrict None)]\<rparr>))
             = (ElemObj exLoose, Inr (exStrict (Some ''daily'')))"
    using ex_norm2 by (simp add: exDoc_def)
  have v: "validateSMIOptions refEnv (exStrict (Some ''daily'')) None = None"
    by (simp add: refEnv_def)
  from contains_after_add_and_del[OF n, of None] v
       contains_after_add_and_del[OF n', of None]
  show ?thesis
    by (auto simp: exStrict_def)
qed

section \<open>The cache slot\<close>

text \<open>
  Claim C7.  \<^verbatim>\<open>add\<close> and \<^verbatim>\<open>del\<close> leave the cached string and its time stamp as they
  are, so the cache is valid after them exactly when it was before;
  \<^verbatim>\<open>clearCache\<close> empties the cached string, after which the cache is not valid at
  any time and the next \<^verbatim>\<open>toString\<close> returns a regenerated document.
\<close>

theorem add_del_leave_cache:
  "cache (snd (snd (add env x lv s))) = cache s
   \<and> cacheSetTimestamp (snd (snd (add env x lv s))) = cacheSetTimestamp s
   \<and> isCacheValid now (snd (snd (add env x lv s))) = isCacheValid now s
   \<and> cache (snd (snd (del env x s))) = cache s
   \<and> cacheSetTimestamp (snd (snd (del env x s))) = cacheSetTimestamp s
   \<and> isCacheValid now (snd (snd (del env x s))) = isCacheValid now s
   \<and> cache (clearCache s) = []
   \<and> cacheSetTimestamp (clearCache s) = cacheSetTimestamp s
   \<and> \<not> isCacheValid now (clearCache s)
   \<and> fst (toString env pretty now now' (clearCache s)) = regenerated env pretty s"
proof -
  have a: "\<exists>us. snd (snd (add env x lv s)) = s\<lparr>urls := us\<rparr>"
    by (auto simp: add_def Let_def split: prod.splits sum.splits option.splits intro: exI[of _ "urls s"])
  have d: "\<exists>us. snd (snd (del env x s)) = s\<lparr>urls := us\<rparr>"
    by (auto simp: del_def split: prod.splits sum.splits intro: exI[of _ "urls s"])
  have c: "prepareRoot (clearCache s) = prepareRoot s"
    by (simp add: prepareRoot_def clearCache_def)
  have t: "fst (toString env pretty now now' (clearCache s)) = regenerated env pretty s"
    by (simp add: toString_def Let_def isCacheValid_def regenerated_def c setCache_def
          split: prod.splits option.splits)
       (simp add: clearCache_def)
  from a obtain us where ua: "snd (snd (add env x lv s)) = s\<lparr>urls := us\<rparr>" ..
  from d obtain vs where ud: "snd (snd (del env x s)) = s\<lparr>urls := vs\<rparr>" ..
  show ?thesis
    unfolding ua ud using t by (simp add: isCacheValid_def clearCache_def)
qed

section \<open>Serialisation and the cache\<close>

lemma isCacheValid_root [simp]: "isCacheValid now (s\<lparr>root := r\<rparr>) = isCacheValid now s"
  by (simp add: isCacheValid_def)

lemma toString_cache_hit:
  "isCacheValid now s \<Longrightarrow>
     fst (toString env pretty now now' s) = Inr (cache s)
     \<and> cache (snd (toString env pretty now now' s)) = cache s
     \<and> cacheSetTimestamp (snd (toString env pretty now now' s)) = cacheSetTimestamp s"
  by (simp add: toString_def Let_def)

lemma toString_miss:
  "\<not> isCacheValid now s \<Longrightarrow> fst (toString env pretty now now' s) = regenerated env pretty s"
  by (simp add: toString_def Let_def regenerated_def setCache_def split: prod.splits option.splits)

lemma toString_no_cache:
  "cacheTime s = 0 \<Longrightarrow> fst (toString env pretty now now' s) = regenerated env pretty s"
  by (rule toString_miss) (simp add: isCacheValid_def)

lemma toString_caches:
  "fst (toString env pretty now now' s) = Inr doc \<Longrightarrow>
     cache (snd (toString env pretty now now' s)) = doc
     \<and> cacheTime (snd (toString env pretty now now' s)) = cacheTime s"
  by (auto simp: toString_def Let_def setCache_def split: prod.splits option.splits if_splits)

lemma toString_twice_within_TTL:
  assumes "fst (toString env pretty now now' s) = Inr doc"
    and "isCacheValid t (snd (toString env pretty now now' s))"
  shows "fst (toString env pretty2 t t' (snd (toString env pretty now now' s))) = Inr doc"
  using toString_cache_hit[OF assms(2)] toString_caches[OF assms(1)] by simp

lemma buildAll_instructions:
  "x_instructions (fst (buildAll env smis r)) = x_instructions r"
  by (induction smis arbitrary: r) (auto split: sum.splits)

lemma prepareRoot_instructions:
  "x_instructions (prepareRoot s) =
     x_instructions (root s)
       @ (if truthy (xslUrl s) then [stylesheetInstruction (the (xslUrl s))] else [])"
  by (simp add: prepareRoot_def addStylesheet_def instructionBefore_def defaultNamespaces_def
        att_def resetChildren_def)

lemma toString_instructions:
  "x_instructions (root (snd (toString env pretty now now' s))) =
     x_instructions (root s)
       @ (if truthy (xslUrl s) then [stylesheetInstruction (the (xslUrl s))] else [])"
proof -
  have "x_instructions (root (snd (toString env pretty now now' s))) = x_instructions (prepareRoot s)"
    using buildAll_instructions[of env "map snd (urls s)" "prepareRoot s"]
    by (auto simp: toString_def Let_def setCache_def split: prod.splits option.splits)
  then show ?thesis by (simp add: prepareRoot_instructions)
qed


lemma ex_new_xsl: "new_Sitemap refEnv exXslOpts = Inr exXslDoc"
  by (simp add: new_Sitemap_def exXslOpts_def normalizeURLs_def norm_simps ref_simps
        exXslDoc_def exStrict_def)

lemma ex_toString_first:
  "toString refEnv False 0 0 exXslDoc
     = (Inr (ref_xml_end (exXslRoot [exXslInstruction]) False),
        exXslDoc\<lparr>root := exXslRoot [exXslInstruction],
                  cache := ref_xml_end (exXslRoot [exXslInstruction]) False,
                  cacheSetTimestamp := 0\<rparr>)"
  by (simp add: toString_def Let_def isCacheValid_def setCache_def prepareRoot_def
        addStylesheet_def defaultNamespaces_def resetChildren_def att_def instructionBefore_def
        exXslDoc_def exXslRoot_def exXslInstruction_def create_urlset_def exStrict_def
        refEnv_def ref_loc_def)

lemma ex_toString_second:
  "fst (toString refEnv False 2000 2000
         (exXslDoc\<lparr>root := exXslRoot [exXslInstruction],
                   cache := ref_xml_end (exXslRoot [exXslInstruction]) False,
                   cacheSetTimestamp := 0\<rparr>))
     = Inr (ref_xml_end (exXslRoot [exXslInstruction, exXslInstruction]) False)"
  by (simp add: toString_def Let_def isCacheValid_def setCache_def prepareRoot_def
        addStylesheet_def defaultNamespaces_def resetChildren_def att_def instructionBefore_def
        exXslDoc_def exXslRoot_def exXslInstruction_def create_urlset_def exStrict_def
        refEnv_def ref_loc_def)

text \<open>
  Claim C3.  The cache rule holds (\<open>toString_cache_hit\<close>,
  \<open>toString_twice_within_TTL\<close>, \<open>toString_no_cache\<close>), but a serialisation after the
  cache time has passed is not the same document when a stylesheet is set:
  every call of \<^verbatim>\<open>toString\<close> inserts the stylesheet instruction before the root
  once more (\<open>toString_instructions\<close>), while the children of the root are reset.
  For the document \<open>exXslDoc\<close>, the call at time 0 returns a document with one
  stylesheet instruction and the call at time 2000, after the cache time of 1000,
  one with two.
\<close>

theorem toString_repeats_stylesheet:
  "new_Sitemap refEnv exXslOpts = Inr exXslDoc
   \<and> fst (toString refEnv False 0 0 exXslDoc)
       = Inr (ref_xml_end (exXslRoot [exXslInstruction]) False)
   \<and> fst (toString refEnv False 2000 2000 (snd (toString refEnv False 0 0 exXslDoc)))
       = Inr (ref_xml_end (exXslRoot [exXslInstruction, exXslInstruction]) False)
   \<and> ref_xml_end (exXslRoot [exXslInstruction]) False
       \<noteq> ref_xml_end (exXslRoot [exXslInstruction, exXslInstruction]) False"
proof -
  have "ref_xml_end (exXslRoot [exXslInstruction]) False
       \<noteq> ref_xml_end (exXslRoot [exXslInstruction, exXslInstruction]) False"
    by (simp add: ref_xml_end_def exXslRoot_def exXslInstruction_def stylesheetInstruction_def)
  then show ?thesis
    by (simp only: ex_new_xsl ex_toString_first ex_toString_second fst_conv snd_conv) simp
qed

section \<open>The constructor\<close>

text \<open>The namespace option of the test of the index, and two options that make the
  constructor throw: a name that is not legal, and an attribute without \<^verbatim>\<open>=\<close>.\<close>

lemma ex_xmlNs_ok:
  \<open>map_sum id (\<lambda>s. x_attributes (root s))
     (new_Sitemap refEnv \<lparr>o_urls = None, o_hostname = None, o_cacheTime = None,
        o_xslUrl = None, o_xmlNs = Some ''xmlns="https://www.sitemaps.org/schemas/sitemap/0.9"'',
        o_level = None\<rparr>)
   = Inr [(''xmlns'', ''https://www.sitemaps.org/schemas/sitemap/0.9'')]\<close>
  by (simp add: new_Sitemap_def normalizeURLs_def strip_quotes_def is_quote_def att_def
        create_urlset_def refEnv_def is_alpha_def)

lemma ex_xmlNs_bad:
  "new_Sitemap refEnv \<lparr>o_urls = None, o_hostname = None, o_cacheTime = None,
        o_xslUrl = None, o_xmlNs = Some ''=x'', o_level = None\<rparr> = Inl XMLError
   \<and> new_Sitemap refEnv \<lparr>o_urls = None, o_hostname = None, o_cacheTime = None,
        o_xslUrl = None, o_xmlNs = Some ''xmlns'', o_level = None\<rparr> = Inl TypeError_undefined"
  by (simp add: new_Sitemap_def normalizeURLs_def strip_quotes_def is_quote_def att_def
        create_urlset_def refEnv_def is_alpha_def)

section \<open>The size limit\<close>

text \<open>
  Claim C9.  The size limit of a document is the field \<^verbatim>\<open>limit\<close>, which the class
  initialises to 5000: a document constructed without options has
  \<^verbatim>\<open>limit = 5000\<close>, not 50000.
\<close>

theorem limit_is_5000:
  "map_sum id limit
     (new_Sitemap env \<lparr>o_urls = None, o_hostname = None, o_cacheTime = None,
        o_xslUrl = None, o_xmlNs = None, o_level = None\<rparr>) = Inr 5000"
  by (simp add: new_Sitemap_def normalizeURLs_def)

section \<open>The stream\<close>

lemma transform_head_done:
  "st_hasHeadOutput st \<Longrightarrow> itemFragment env (st_hostname st) (st_level st) item = Inr fr \<Longrightarrow>
     transform env item st = (None, st\<lparr>st_pushed := st_pushed st @ [fr]\<rparr>)"
  by (simp add: transform_def push_def)

lemma writeAll_head_done:
  "st_hasHeadOutput st \<Longrightarrow>
   map (itemFragment env (st_hostname st) (st_level st)) items = map Inr frs \<Longrightarrow>
     writeAll env items st = (None, st\<lparr>st_pushed := st_pushed st @ frs\<rparr>)"
proof (induction items arbitrary: st frs)
  case Nil
  then show ?case by simp
next
  case (Cons item items)
  from Cons.prems(2) obtain fr frs' where frs: "frs = fr # frs'"
    and fr: "itemFragment env (st_hostname st) (st_level st) item = Inr fr"
    and rest: "map (itemFragment env (st_hostname st) (st_level st)) items = map Inr frs'"
    by (cases frs) auto
  let ?st' = "st\<lparr>st_pushed := st_pushed st @ [fr]\<rparr>"
  have "writeAll env items ?st' = (None, ?st'\<lparr>st_pushed := st_pushed ?st' @ frs'\<rparr>)"
    using Cons.prems(1) rest by (intro Cons.IH) simp_all
  then show ?case
    using transform_head_done[OF Cons.prems(1) fr] by (simp add: frs)
qed

lemma transform_first:
  "\<not> st_hasHeadOutput st \<Longrightarrow> itemFragment env (st_hostname st) (st_level st) item = Inr fr \<Longrightarrow>
     transform env item st
       = (None, st\<lparr>st_hasHeadOutput := True, st_pushed := st_pushed st @ [preamble, fr]\<rparr>)"
  by (simp add: transform_def push_def)

text \<open>
  Claim C2.  A stream that ends without an entry has pushed the closing tag and
  nothing else.  A stream that is given at least one entry, each of which yields
  a fragment, has pushed the preamble, then the fragments of the entries in the
  order written, then the closing tag: the preamble comes first, before every
  fragment, and is pushed once.
\<close>

theorem stream_output:
  "runStream env [] (new_SitemapStream h level) = Inr [closetag]
   \<and> (items \<noteq> [] \<longrightarrow>
        map (itemFragment env h (case level of None \<Rightarrow> WARN | Some l \<Rightarrow> l)) items = map Inr frs \<longrightarrow>
        runStream env items (new_SitemapStream h level) = Inr (preamble # frs @ [closetag]))"
proof (intro conjI impI)
  show "runStream env [] (new_SitemapStream h level) = Inr [closetag]"
    by (simp add: runStream_def flush_def push_def new_SitemapStream_def)
next
  let ?lv = "case level of None \<Rightarrow> WARN | Some l \<Rightarrow> l"
  let ?st = "new_SitemapStream h level"
  assume ne: "items \<noteq> []"
    and frs: "map (itemFragment env h ?lv) items = map Inr frs"
  from ne obtain item rest where items: "items = item # rest" by (cases items) auto
  with frs obtain fr frs' where f: "frs = fr # frs'"
    and fr: "itemFragment env h ?lv item = Inr fr"
    and rest: "map (itemFragment env h ?lv) rest = map Inr frs'"
    by (cases frs) auto
  let ?st1 = "?st\<lparr>st_hasHeadOutput := True, st_pushed := st_pushed ?st @ [preamble, fr]\<rparr>"
  have t: "transform env item ?st = (None, ?st1)"
    by (rule transform_first) (simp_all add: new_SitemapStream_def fr)
  have w: "writeAll env rest ?st1 = (None, ?st1\<lparr>st_pushed := st_pushed ?st1 @ frs'\<rparr>)"
    by (rule writeAll_head_done) (simp_all add: new_SitemapStream_def rest)
  have p: "st_pushed ?st = []" by (simp add: new_SitemapStream_def)
  have "writeAll env items ?st = (None, ?st1\<lparr>st_pushed := st_pushed ?st1 @ frs'\<rparr>)"
    by (simp add: items t w)
  then show "runStream env items ?st = Inr (preamble # frs @ [closetag])"
    by (simp add: runStream_def flush_def push_def f p)
qed

text \<open>Two entries written to a stream with a hostname.\<close>

theorem stream_output_witness:
  "exItems \<noteq> []
   \<and> runStream refEnv exItems (new_SitemapStream (Some ''https://example.com'') None)
     = Inr [preamble, ''<url><loc>https://example.com/a</loc></url>'',
            ''<url><loc>https://example.org/b</loc></url>'', closetag]"
proof -
  have ne: "exItems \<noteq> []" by (simp add: exItems_def)
  have frs: "map (itemFragment refEnv (Some ''https://example.com'')
                (case None of None \<Rightarrow> WARN | Some l \<Rightarrow> l)) exItems
      = map Inr [''<url><loc>https://example.com/a</loc></url>'',
                 ''<url><loc>https://example.org/b</loc></url>'']"
    by (simp add: exItems_def itemFragment_def normalizeURL_def normalizeLoose_def resolve_def
          loose_imgs_def img_after_def loose_links_def loose_videos_def video_after_def
          resolveLastmod_def spread_def refEnv_def ref_new_URL_def is_alpha_def
          is_scheme_char_def ref_loc_def)
  from stream_output[of refEnv "Some ''https://example.com''" None exItems
         "[''<url><loc>https://example.com/a</loc></url>'',
           ''<url><loc>https://example.org/b</loc></url>'']"] ne frs
  show ?thesis by simp
qed

section \<open>The index orchestrator without a target\<close>

lemma mapE_error: "mapE f xs = Inl e \<Longrightarrow> \<exists>x \<in> set xs. f x = Inl e"
  by (induction xs) (auto split: sum.splits)

lemma resolve_error: "resolve env u h = Inl e \<Longrightarrow> e = TypeError_InvalidURL"
  by (simp add: resolve_def split: option.splits)

lemma mapE_resolve_img_error:
  assumes "mapE (resolve_img env h) xs = Inl e"
  shows "e = TypeError_InvalidURL"
proof -
  from mapE_error[OF assms] obtain x where "resolve_img env h x = Inl e" by blast
  then show ?thesis
    by (simp add: resolve_img_def resolve_def split: option.splits)
qed

lemma mapE_resolve_link_error:
  assumes "mapE (resolve_link env h) xs = Inl e"
  shows "e = TypeError_InvalidURL"
proof -
  from mapE_error[OF assms] obtain x where "resolve_link env h x = Inl e" by blast
  then show ?thesis
    by (simp add: resolve_link_def resolve_def split: option.splits)
qed

lemma toISOString_error: "toISOString env d = Inl e \<Longrightarrow> e = RangeError_InvalidTime"
  by (simp add: toISOString_def split: option.splits)

lemma map_sum_Inl: "map_sum id f x = Inl e \<longleftrightarrow> x = Inl e"
  by (cases x) simp_all

lemma resolveLastmod_error:
  "resolveLastmod env l = Inl e \<Longrightarrow> e \<noteq> UndefinedTargetFolderError"
  by (auto simp: resolveLastmod_def map_sum_Inl split: if_splits option.splits
           dest: toISOString_error)

lemma normalizeLoose_error:
  assumes "snd (normalizeLoose env l h) = Inl e"
  shows "e \<noteq> UndefinedTargetFolderError"
proof (cases "resolve env (l_url l) h")
  case (Inl e1)
  with assms have "e = e1" by (simp add: normalizeLoose_def)
  with Inl resolve_error show ?thesis by fastforce
next
  case u: (Inr u)
  show ?thesis
  proof (cases "mapE (resolve_img env h) (loose_imgs l)")
    case (Inl e2)
    with assms u have "e = e2" by (simp add: normalizeLoose_def Let_def)
    with Inl mapE_resolve_img_error show ?thesis by fastforce
  next
    case i: (Inr imgs)
    show ?thesis
    proof (cases "mapE (resolve_link env h) (loose_links l)")
      case (Inl e3)
      with assms u i have "e = e3" by (simp add: normalizeLoose_def Let_def)
      with Inl mapE_resolve_link_error show ?thesis by fastforce
    next
      case k: (Inr lnks)
      show ?thesis
      proof (cases "resolveLastmod env l")
        case (Inl e4)
        with assms u i k have "e = e4" by (simp add: normalizeLoose_def Let_def)
        with Inl resolveLastmod_error show ?thesis by fastforce
      next
        case (Inr lm)
        with assms u i k show ?thesis by (simp add: normalizeLoose_def Let_def)
      qed
    qed
  qed
qed

lemma normalizeURL_error:
  "snd (normalizeURL env el h) = Inl e \<Longrightarrow> e \<noteq> UndefinedTargetFolderError"
  using normalizeLoose_error[of env "smiLoose_of el" h e]
  by (simp add: normalizeURL_def split: prod.splits)

lemma normalizeURLs_from_error:
  "normalizeURLs_from env h els m = (els', Inl e) \<Longrightarrow> e \<noteq> UndefinedTargetFolderError"
proof (induction els arbitrary: m els')
  case Nil
  then show ?case by simp
next
  case (Cons el els)
  show ?case
  proof (cases "normalizeURL env el h")
    case (Pair el' r)
    show ?thesis
    proof (cases r)
      case (Inl e')
      with Pair Cons.prems normalizeURL_error[of env el h e] show ?thesis by auto
    next
      case (Inr smio)
      with Pair Cons.prems Cons.IH[of "AList.update (url smio) smio m"] show ?thesis
        by (auto split: prod.splits)
    qed
  qed
qed

lemma xmlNs_attributes_error:
  "xmlNs_attributes env as r = Inl e \<Longrightarrow> e \<noteq> UndefinedTargetFolderError"
  by (induction as arbitrary: r) (auto split: list.splits if_splits)

lemma validateAll_error:
  "validateAll env smis lv = Inl e \<Longrightarrow> e \<noteq> UndefinedTargetFolderError"
  by (induction smis) (auto split: option.splits)

lemma normalizeURLs_error:
  "snd (normalizeURLs env els h) = Inl e \<Longrightarrow> e \<noteq> UndefinedTargetFolderError"
  using normalizeURLs_from_error[of env h els "[]" "fst (normalizeURLs_from env h els [])" e]
  by (simp add: normalizeURLs_def) (metis prod.collapse)

lemma new_Sitemap_error:
  "new_Sitemap env opts = Inl e \<Longrightarrow> e \<noteq> UndefinedTargetFolderError"
  by (auto simp: new_Sitemap_def
      split: sum.splits if_splits
      dest: xmlNs_attributes_error validateAll_error normalizeURLs_error)

lemma buildAll_error:
  "snd (buildAll env smis r) = Some e \<Longrightarrow> e \<noteq> UndefinedTargetFolderError"
  by (induction smis arbitrary: r) (auto split: sum.splits)

lemma toString_error:
  "fst (toString env pretty now now' s) = Inl e \<Longrightarrow> e \<noteq> UndefinedTargetFolderError"
  using buildAll_error[of env "map snd (urls s)" "prepareRoot s" e]
  by (auto simp: toString_def Let_def setCache_def split: if_splits prod.splits option.splits)

lemma writeChunk_error:
  "fst (writeChunk env conf i c fs) = Inl e \<Longrightarrow> e \<noteq> UndefinedTargetFolderError"
  by (auto simp: writeChunk_def Let_def split: sum.splits dest: new_Sitemap_error toString_error)

lemma writeChunks_error:
  "writeChunks env conf i cs fs = (Inl e, fs') \<Longrightarrow> e \<noteq> UndefinedTargetFolderError"
proof (induction cs arbitrary: i fs fs')
  case Nil
  then show ?case by simp
next
  case (Cons c cs)
  show ?case
  proof (cases "writeChunk env conf i c fs")
    case (Pair r fs1)
    show ?thesis
    proof (cases r)
      case (Inl e')
      with Pair Cons.prems writeChunk_error[of env conf i c fs e] show ?thesis by auto
    next
      case (Inr loc)
      with Pair Cons.prems Cons.IH[of "Suc i" fs1] show ?thesis
        by (auto split: prod.splits sum.splits)
    qed
  qed
qed

text \<open>With the target folder of the test that succeeds, the model writes the
  three files that the test expects; chunks of a positive size concatenate to the
  entries.\<close>

lemma concat_chunks: "0 < n \<Longrightarrow> concat (chunks n xs) = xs"
  by (induction n xs rule: chunks.induct) (simp add: chunks.simps)

lemma chunks_ex: "chunks (Suc 0) [a, b] = [[a], [b]]"
  by (simp add: chunks.simps)

lemma string_of_nat_ex: "string_of_nat 0 = ''0''" "string_of_nat (Suc 0) = ''1''"
  by (simp_all add: string_of_nat.simps)

lemma ex_index_run:
  "fst (createSitemapIndex refEnv (exIndexConf\<lparr>i_targetFolder := Some ''/tmp''\<rparr>) exFs) = Inr True
   \<and> map fst (fs_files (snd (createSitemapIndex refEnv
         (exIndexConf\<lparr>i_targetFolder := Some ''/tmp''\<rparr>) exFs)))
       = [''/tmp/sm-test-0.xml'', ''/tmp/sm-test-1.xml'', ''/tmp/sm-test-index.xml'']"
  by (simp add: createSitemapIndex_def targetConfigured_def exIndexConf_def exFs_def chunks_ex
        writeChunk_def new_Sitemap_def normalizeURLs_def norm_simps ref_simps toString_def
        isCacheValid_def setCache_def prepareRoot_def addStylesheet_def defaultNamespaces_def
        resetChildren_def att_def create_urlset_def writeFileSync_def string_of_nat_ex Let_def)

text \<open>
  Claim C10.  When the target location is not configured, \<^verbatim>\<open>createSitemapIndex\<close>
  fails with \<^verbatim>\<open>UndefinedTargetFolder\<close> and the file system is as before: no chunk
  was written.  That error is the mark of the missing configuration only: when
  the target is configured, no failure of a chunk is reported with it.
\<close>

theorem unconfigured_target_fails_first:
  "(\<not> targetConfigured conf fs \<longrightarrow>
      createSitemapIndex env conf fs = (Inl UndefinedTargetFolderError, fs))
   \<and> (fst (createSitemapIndex env conf fs) = Inl UndefinedTargetFolderError
        \<longrightarrow> \<not> targetConfigured conf fs)"
proof (intro conjI impI)
  assume "\<not> targetConfigured conf fs"
  then show "createSitemapIndex env conf fs = (Inl UndefinedTargetFolderError, fs)"
    by (simp add: createSitemapIndex_def)
next
  assume err: "fst (createSitemapIndex env conf fs) = Inl UndefinedTargetFolderError"
  show "\<not> targetConfigured conf fs"
  proof
    assume conf: "targetConfigured conf fs"
    obtain r fs' where w: "writeChunks env conf 0
        (chunks (case i_sitemapSize conf of None \<Rightarrow> 50000 | Some n \<Rightarrow> n) (i_urls conf)) fs
        = (r, fs')"
      by (cases "writeChunks env conf 0
        (chunks (case i_sitemapSize conf of None \<Rightarrow> 50000 | Some n \<Rightarrow> n) (i_urls conf)) fs")
    show False
    proof (cases r)
      case (Inl e)
      with err conf w have "e = UndefinedTargetFolderError"
        by (simp add: createSitemapIndex_def)
      with w Inl writeChunks_error show False by blast
    next
      case (Inr locs)
      with err conf w show False by (simp add: createSitemapIndex_def)
    qed
  qed
qed

text \<open>The call of the test, with the target folder \<^verbatim>\<open>/tmp2\<close> that does not exist.\<close>

theorem unconfigured_target_fails_first_witness:
  "\<not> targetConfigured exIndexConf exFs
   \<and> createSitemapIndex refEnv exIndexConf exFs = (Inl UndefinedTargetFolderError, exFs)"
proof -
  have "\<not> targetConfigured exIndexConf exFs"
    by (simp add: targetConfigured_def exIndexConf_def exFs_def)
  with unconfigured_target_fails_first[of exIndexConf exFs refEnv] show ?thesis by simp
qed

end
